theory Spec2Isabelle
  imports Complex_Main
begin

section \<open>Data model of script.py\<close>

text \<open>
  The three enumerations of the script. Each is a closed \<open>enum.Enum\<close>; its members are
  not strings (the classes derive from \<open>enum.Enum\<close> only). Only members of
  \<open>Playability\<close> are ever created by the script.
\<close>

datatype Colour = WHITE | BLUE | BLACK | RED | GREEN

datatype CreatureType =
  BIRD | RAT | LIZARD | RACCOON | RABBIT | BAT | OTTER | SQUIRREL | MOUSE | FROG

datatype Playability = UNPLAYABLE | WEAK | MEDIUM | STRONG

text \<open>
  \<open>Pack\<close> is a frozen dataclass with the fields \<open>name\<close>, \<open>colours\<close> and
  \<open>creature_types\<close>, annotated \<open>str\<close>, \<open>set[Colour]\<close> and \<open>set[CreatureType]\<close>.
  The annotations are not enforced. The only place that builds a pack is \<open>get_packs\<close>,
  which passes each record of the JSON file to the constructor as it is
  (\<open>Pack(**pack_data)\<close>): \<open>colours\<close> and \<open>creature_types\<close> hold the arrays of the file,
  lists of strings in the stored order, and no member of \<open>Colour\<close> or \<open>CreatureType\<close>
  is created. The dataclass checks nothing: a list may be empty or repeat an item, and two
  packs may have the same name. Two packs are equal when their three fields are.
\<close>

record Pack =
  name :: string
  colours :: "string list"
  creature_types :: "string list"

text \<open>The exceptions that the modelled code can raise.\<close>

datatype error = TypeError | ValueError | AttributeError | ZeroDivisionError | IndexError

definition bind_err :: "error + 'a \<Rightarrow> ('a \<Rightarrow> error + 'b) \<Rightarrow> error + 'b" where
  "bind_err m f = (case m of Inl e \<Rightarrow> Inl e | Inr v \<Rightarrow> f v)"

section \<open>The classifier (methods of Pack)\<close>

definition matching_types :: "Pack \<Rightarrow> Pack \<Rightarrow> string set" where
  "matching_types self pack_two =
     {creature_type \<in> set (creature_types self).
        creature_type \<in> set (creature_types pack_two)}"

definition synergistic_types ::
  "Pack \<Rightarrow> Pack \<Rightarrow> string set set \<Rightarrow> string set set" where
  "synergistic_types self pack_two synergistic_type_pairs =
     (let matches_with_pack_two =
            {type_pair \<in> synergistic_type_pairs.
               \<exists>creature_type \<in> set (creature_types pack_two). creature_type \<in> type_pair};
          matches_with_both_packs =
            {type_pair \<in> matches_with_pack_two.
               \<exists>creature_type \<in> set (creature_types self). creature_type \<in> type_pair}
      in matches_with_both_packs)"

definition matching_colours :: "Pack \<Rightarrow> Pack \<Rightarrow> string set" where
  "matching_colours self pack_two =
     {colour \<in> set (colours self). colour \<in> set (colours pack_two)}"

text \<open>
  \<open>pair_playability\<close>: a set in a condition is true when it is not empty, and
  \<open>len\<close> of a list is its length.
\<close>

definition pair_playability :: "Pack \<Rightarrow> Pack \<Rightarrow> string set set \<Rightarrow> Playability" where
  "pair_playability self pack_two synergistic_type_pairs =
     (if matching_colours self pack_two \<noteq> {} then
        (if matching_types self pack_two \<noteq> {}
            \<or> synergistic_types self pack_two synergistic_type_pairs \<noteq> {}
         then STRONG
         else (if max (length (colours self)) (length (colours pack_two)) = 1
               then MEDIUM
               else WEAK))
      else
        (if matching_types self pack_two \<noteq> {}
            \<or> synergistic_types self pack_two synergistic_type_pairs \<noteq> {}
         then (if max (length (colours self)) (length (colours pack_two)) = 1
               then MEDIUM
               else WEAK)
         else (if max (length (colours self)) (length (colours pack_two)) = 1
               then WEAK
               else UNPLAYABLE)))"

text \<open>
  The decision table as the specification words it, over three facts about a pair:
  whether the packs share a colour, whether they are linked (by a common creature type or
  by a synergistic type pair), and whether both are single-coloured
  (\<open>max(|a.colours|, |b.colours|) == 1\<close>).
\<close>

fun decision_table :: "bool \<Rightarrow> bool \<Rightarrow> bool \<Rightarrow> Playability" where
  "decision_table True True _ = STRONG"
| "decision_table True False True = MEDIUM"
| "decision_table True False False = WEAK"
| "decision_table False True True = MEDIUM"
| "decision_table False True False = WEAK"
| "decision_table False False True = WEAK"
| "decision_table False False False = UNPLAYABLE"

section \<open>Display labels\<close>

text \<open>
  \<open>Pack.__str__\<close> is \<open>f"{''.join(self.colours)} {self.name}"\<close>. The argument of
  \<open>str.join\<close> is iterated and every item must be a \<open>str\<close>: an item of another class,
  such as a member of \<open>Colour\<close>, raises \<open>TypeError\<close>. The items of \<open>colours\<close> are the
  strings of the JSON file, joined in the stored order.
\<close>

datatype pyobj = PyStr string | PyColour Colour

fun str_join :: "string \<Rightarrow> pyobj list \<Rightarrow> error + string" where
  "str_join sep [] = Inr []"
| "str_join sep (PyColour c # items) = Inl TypeError"
| "str_join sep (PyStr s # items) =
     bind_err (str_join sep items) (\<lambda>joined. Inr (if items = [] then s else s @ sep @ joined))"

definition pack_str :: "Pack \<Rightarrow> error + string" where
  "pack_str self =
     bind_err (str_join [] (map PyStr (colours self)))
       (\<lambda>joined. Inr (joined @ '' '' @ name self))"

text \<open>\<open>frozenset({str(pack_one), str(pack_two)})\<close>, the operands evaluated left to right.\<close>

definition pair_key :: "Pack \<Rightarrow> Pack \<Rightarrow> error + string set" where
  "pair_key pack_one pack_two =
     bind_err (pack_str pack_one) (\<lambda>label_one.
     bind_err (pack_str pack_two) (\<lambda>label_two. Inr {label_one, label_two}))"

section \<open>The match index: module state and initialize\<close>

text \<open>
  The five module-level sets. \<open>PACKS\<close> is read from a file when the module is loaded;
  the functions below take it as an argument.
\<close>

record MatchState =
  STRONG_MATCHES :: "string set set"
  MEDIUM_MATCHES :: "string set set"
  WEAK_MATCHES :: "string set set"
  UNPLAYABLE_MATCHES :: "string set set"
  SYNERGISTIC_TYPE_PAIRS :: "string set set"

definition module_state :: MatchState where
  "module_state = \<lparr>STRONG_MATCHES = {}, MEDIUM_MATCHES = {}, WEAK_MATCHES = {},
     UNPLAYABLE_MATCHES = {}, SYNERGISTIC_TYPE_PAIRS = {}\<rparr>"

fun add_synergies :: "Pack list \<Rightarrow> string set set \<Rightarrow> string set set" where
  "add_synergies [] pairs = pairs"
| "add_synergies (pack # packs) pairs =
     add_synergies packs
       (if length (creature_types pack) = 2 \<and> length (colours pack) = 1
        then insert (set (creature_types pack)) pairs else pairs)"

text \<open>
  The body of the inner loop: four \<open>if\<close> statements in sequence, each of which computes
  the key only when its verdict is the pair's.
\<close>

definition record_pair :: "Pack \<Rightarrow> Pack \<Rightarrow> MatchState \<Rightarrow> error + MatchState" where
  "record_pair pack_one pack_two st =
     (let playability = pair_playability pack_one pack_two (SYNERGISTIC_TYPE_PAIRS st) in
      bind_err
        (if playability = STRONG
         then bind_err (pair_key pack_one pack_two)
                (\<lambda>k. Inr (st\<lparr>STRONG_MATCHES := insert k (STRONG_MATCHES st)\<rparr>))
         else Inr st) (\<lambda>st.
      bind_err
        (if playability = MEDIUM
         then bind_err (pair_key pack_one pack_two)
                (\<lambda>k. Inr (st\<lparr>MEDIUM_MATCHES := insert k (MEDIUM_MATCHES st)\<rparr>))
         else Inr st) (\<lambda>st.
      bind_err
        (if playability = WEAK
         then bind_err (pair_key pack_one pack_two)
                (\<lambda>k. Inr (st\<lparr>WEAK_MATCHES := insert k (WEAK_MATCHES st)\<rparr>))
         else Inr st) (\<lambda>st.
        (if playability = UNPLAYABLE
         then bind_err (pair_key pack_one pack_two)
                (\<lambda>k. Inr (st\<lparr>UNPLAYABLE_MATCHES := insert k (UNPLAYABLE_MATCHES st)\<rparr>))
         else Inr st)))))"

fun record_remaining :: "Pack \<Rightarrow> Pack list \<Rightarrow> MatchState \<Rightarrow> error + MatchState" where
  "record_remaining pack_one [] st = Inr st"
| "record_remaining pack_one (pack_two # remaining_packs) st =
     bind_err (record_pair pack_one pack_two st) (record_remaining pack_one remaining_packs)"

text \<open>
  The outer loop takes each pack with the slice of the packs after it
  (\<open>PACKS[number:]\<close>). Its guard \<open>number > len(PACKS)\<close> is never true.
\<close>

fun record_all :: "Pack list \<Rightarrow> MatchState \<Rightarrow> error + MatchState" where
  "record_all [] st = Inr st"
| "record_all (pack_one # remaining_packs) st =
     bind_err (record_remaining pack_one remaining_packs st) (record_all remaining_packs)"

definition initialize :: "Pack list \<Rightarrow> MatchState \<Rightarrow> error + MatchState" where
  "initialize PACKS st =
     record_all PACKS
       (st\<lparr>SYNERGISTIC_TYPE_PAIRS := add_synergies PACKS (SYNERGISTIC_TYPE_PAIRS st)\<rparr>)"

section \<open>write_to_file\<close>

text \<open>
  The packs are read from the input file again (here: the argument), and the matrix is
  written as CSV: the result is the state and the lines handed to the CSV writer, the
  header first.
\<close>

fun Playability_value :: "Playability \<Rightarrow> string" where
  "Playability_value UNPLAYABLE = ''Unplayable''"
| "Playability_value WEAK = ''Weak''"
| "Playability_value MEDIUM = ''Medium''"
| "Playability_value STRONG = ''Strong''"

fun fieldnames_loop ::
  "Pack list \<Rightarrow> string list \<Rightarrow> string set set
     \<Rightarrow> error + (string list \<times> string set set)" where
  "fieldnames_loop [] fieldnames pairs = Inr (fieldnames, pairs)"
| "fieldnames_loop (pack # packs) fieldnames pairs =
     bind_err (pack_str pack) (\<lambda>label.
       fieldnames_loop packs (fieldnames @ [label])
         (if length (creature_types pack) = 2 \<and> length (colours pack) = 1
          then insert (set (creature_types pack)) pairs else pairs))"

fun row_loop ::
  "Pack \<Rightarrow> Pack list \<Rightarrow> MatchState \<Rightarrow> string list \<Rightarrow> error + (MatchState \<times> string list)" where
  "row_loop pack_one [] st row = Inr (st, row)"
| "row_loop pack_one (pack_two # remaining_packs) st row =
     (let playability = pair_playability pack_one pack_two (SYNERGISTIC_TYPE_PAIRS st) in
      bind_err (record_pair pack_one pack_two st) (\<lambda>st'.
        row_loop pack_one remaining_packs st' (row @ [Playability_value playability])))"

fun rows_loop ::
  "nat \<Rightarrow> Pack list \<Rightarrow> MatchState \<Rightarrow> string list list
     \<Rightarrow> error + (MatchState \<times> string list list)" where
  "rows_loop number [] st rows = Inr (st, rows)"
| "rows_loop number (pack_one # remaining_packs) st rows =
     bind_err (pack_str pack_one) (\<lambda>label.
     bind_err (row_loop pack_one remaining_packs st (label # replicate number [])) (\<lambda>(st', row).
       rows_loop (Suc number) remaining_packs st' (rows @ [row])))"

definition write_to_file ::
  "Pack list \<Rightarrow> MatchState \<Rightarrow> error + (MatchState \<times> string list list)" where
  "write_to_file packs st =
     bind_err (fieldnames_loop packs [[]] (SYNERGISTIC_TYPE_PAIRS st)) (\<lambda>(fieldnames, pairs).
     bind_err (rows_loop 1 packs (st\<lparr>SYNERGISTIC_TYPE_PAIRS := pairs\<rparr>) []) (\<lambda>(st', rows).
       Inr (st', fieldnames # rows)))"

section \<open>Results of the evaluator\<close>

record TotalResults =
  total_runs :: int
  strong_or_better :: int
  medium_or_better :: int
  weak_or_better :: int
  unplayable_or_better :: int

definition TotalResults_init :: TotalResults where
  "TotalResults_init = \<lparr>total_runs = 0, strong_or_better = 0, medium_or_better = 0,
     weak_or_better = 0, unplayable_or_better = 0\<rparr>"

text \<open>
  Reading an attribute of a \<open>TotalResults\<close> object by name. The dataclass has the five
  fields above; the only other names it defines are its methods. A name that the object
  does not have raises \<open>AttributeError\<close>.
\<close>

definition TotalResults_getattr :: "TotalResults \<Rightarrow> string \<Rightarrow> error + int" where
  "TotalResults_getattr self attr =
     (if attr = ''total_runs'' then Inr (total_runs self)
      else if attr = ''strong_or_better'' then Inr (strong_or_better self)
      else if attr = ''medium_or_better'' then Inr (medium_or_better self)
      else if attr = ''weak_or_better'' then Inr (weak_or_better self)
      else if attr = ''unplayable_or_better'' then Inr (unplayable_or_better self)
      else Inl AttributeError)"

text \<open>
  \<open>a / b\<close> on integers. The quotient is a float in Python; its rounding is not modelled.
\<close>

definition py_truediv :: "int \<Rightarrow> int \<Rightarrow> error + rat" where
  "py_truediv a b = (if b = 0 then Inl ZeroDivisionError else Inr (Fract a b))"

text \<open>The operands of \<open>/\<close> and \<open>+\<close> are evaluated left to right.\<close>

definition strong_or_better_chance :: "TotalResults \<Rightarrow> error + rat" where
  "strong_or_better_chance self =
     bind_err (TotalResults_getattr self ''strong'') (\<lambda>s.
     bind_err (TotalResults_getattr self ''total_runs'') (\<lambda>t. py_truediv s t))"

definition medium_or_better_chance :: "TotalResults \<Rightarrow> error + rat" where
  "medium_or_better_chance self =
     bind_err (TotalResults_getattr self ''strong'') (\<lambda>s.
     bind_err (TotalResults_getattr self ''mediumn'') (\<lambda>m.
     bind_err (TotalResults_getattr self ''total_runs'') (\<lambda>t. py_truediv (s + m) t)))"

definition weak_or_better_chance :: "TotalResults \<Rightarrow> error + rat" where
  "weak_or_better_chance self =
     bind_err (TotalResults_getattr self ''strong'') (\<lambda>s.
     bind_err (TotalResults_getattr self ''medium'') (\<lambda>m.
     bind_err (TotalResults_getattr self ''weak'') (\<lambda>w.
     bind_err (TotalResults_getattr self ''total_runs'') (\<lambda>t. py_truediv (s + m + w) t))))"

record DraftResult =
  strong :: int
  medium :: int
  weak :: int
  unplayable :: int

definition DraftResult_init :: DraftResult where
  "DraftResult_init = \<lparr>strong = 0, medium = 0, weak = 0, unplayable = 0\<rparr>"

section \<open>DraftStrategy\<close>

text \<open>
  What \<open>draft\<close> returns: a list of packs, or a tuple of a pack and a list of packs.
  \<open>draft\<close> is abstract and draws at random: it is a parameter that takes the state of
  the random generator and returns the new one with its result.
\<close>

datatype drafted = PyList "Pack list" | PyTuple Pack "Pack list"

type_synonym 'g draft_method = "'g \<Rightarrow> Pack list \<Rightarrow> error + (drafted \<times> 'g)"

text \<open>The body of both inner loops of \<open>get_draft_result\<close>: an \<open>if/elif\<close> chain with no \<open>else\<close>.\<close>

definition count_pair :: "MatchState \<Rightarrow> Pack \<Rightarrow> Pack \<Rightarrow> DraftResult \<Rightarrow> error + DraftResult" where
  "count_pair st pack_one pack_two draft_result =
     bind_err (pair_key pack_one pack_two) (\<lambda>pair.
       Inr (if pair \<in> STRONG_MATCHES st
              then draft_result\<lparr>strong := strong draft_result + 1\<rparr>
            else if pair \<in> MEDIUM_MATCHES st
              then draft_result\<lparr>medium := medium draft_result + 1\<rparr>
            else if pair \<in> WEAK_MATCHES st
              then draft_result\<lparr>weak := weak draft_result + 1\<rparr>
            else if pair \<in> UNPLAYABLE_MATCHES st
              then draft_result\<lparr>unplayable := unplayable draft_result + 1\<rparr>
            else draft_result))"

fun count_remaining ::
  "MatchState \<Rightarrow> Pack \<Rightarrow> Pack list \<Rightarrow> DraftResult \<Rightarrow> error + DraftResult" where
  "count_remaining st pack_one [] draft_result = Inr draft_result"
| "count_remaining st pack_one (pack_two # remaining_packs) draft_result =
     bind_err (count_pair st pack_one pack_two draft_result)
       (count_remaining st pack_one remaining_packs)"

text \<open>
  The loop over a drafted list: each pack with the slice after it; the loop is left at
  the last pack (\<open>number == len(drafted_packs)\<close>).
\<close>

fun count_drafted :: "MatchState \<Rightarrow> Pack list \<Rightarrow> DraftResult \<Rightarrow> error + DraftResult" where
  "count_drafted st [] draft_result = Inr draft_result"
| "count_drafted st (pack_one # remaining_packs) draft_result =
     (if remaining_packs = [] then Inr draft_result
      else bind_err (count_remaining st pack_one remaining_packs draft_result)
             (count_drafted st remaining_packs))"

definition count_selection :: "MatchState \<Rightarrow> drafted \<Rightarrow> error + DraftResult" where
  "count_selection st drafted_packs =
     (case drafted_packs of
        PyTuple pack_one remaining_packs \<Rightarrow>
          count_remaining st pack_one remaining_packs DraftResult_init
      | PyList packs \<Rightarrow> count_drafted st packs DraftResult_init)"

definition get_draft_result ::
  "'g draft_method \<Rightarrow> MatchState \<Rightarrow> 'g \<Rightarrow> Pack list \<Rightarrow> error + (DraftResult \<times> 'g)" where
  "get_draft_result draft st g packs =
     bind_err (draft g packs) (\<lambda>(drafted_packs, g').
     bind_err (count_selection st drafted_packs) (\<lambda>draft_result. Inr (draft_result, g')))"

text \<open>One pass of the loop of \<open>test\<close> after the draft: an integer is true when it is not 0.\<close>

definition tally :: "TotalResults \<Rightarrow> DraftResult \<Rightarrow> TotalResults" where
  "tally results draft_result =
     (let r1 = results\<lparr>total_runs := total_runs results + 1\<rparr>;
          r2 = (if strong draft_result \<noteq> 0
                then r1\<lparr>strong_or_better := strong_or_better r1 + 1\<rparr> else r1);
          r3 = (if strong draft_result \<noteq> 0 \<or> medium draft_result \<noteq> 0
                then r2\<lparr>medium_or_better := medium_or_better r2 + 1\<rparr> else r2);
          r4 = (if strong draft_result \<noteq> 0 \<or> medium draft_result \<noteq> 0
                   \<or> weak draft_result \<noteq> 0
                then r3\<lparr>weak_or_better := weak_or_better r3 + 1\<rparr> else r3)
      in (if strong draft_result \<noteq> 0 \<or> medium draft_result \<noteq> 0
             \<or> weak draft_result \<noteq> 0 \<or> unplayable draft_result \<noteq> 0
          then r4\<lparr>unplayable_or_better := unplayable_or_better r4 + 1\<rparr> else r4))"

fun test_loop ::
  "nat \<Rightarrow> 'g draft_method \<Rightarrow> MatchState \<Rightarrow> Pack list \<Rightarrow> 'g \<Rightarrow> TotalResults
     \<Rightarrow> error + (TotalResults \<times> 'g)" where
  "test_loop 0 draft st packs g results = Inr (results, g)"
| "test_loop (Suc n) draft st packs g results =
     bind_err (get_draft_result draft st g packs) (\<lambda>(draft_result, g').
       test_loop n draft st packs g' (tally results draft_result))"

text \<open>
  \<open>test\<close> runs \<open>range(100000)\<close> on \<open>self.results\<close>, which \<open>__init__\<close> sets to
  \<open>TotalResults()\<close>.
\<close>

definition test ::
  "'g draft_method \<Rightarrow> MatchState \<Rightarrow> Pack list \<Rightarrow> 'g \<Rightarrow> TotalResults
     \<Rightarrow> error + (TotalResults \<times> 'g)" where
  "test draft st packs g results = test_loop 100000 draft st packs g results"

section \<open>The strategies and the random module\<close>

text \<open>
  \<open>random.sample\<close> and \<open>random.choice\<close> belong to the standard library. The strategies
  take them as parameters; what the library promises of them is stated as a contract:
  \<open>sample(population, k)\<close> raises \<open>ValueError\<close> when \<open>k\<close> exceeds the population, and
  otherwise returns the items at \<open>k\<close> different positions of it; \<open>choice(seq)\<close> raises
  \<open>IndexError\<close> on an empty sequence and otherwise returns the item at one of its
  positions.
\<close>

type_synonym 'g sample_fn = "'g \<Rightarrow> Pack list \<Rightarrow> nat \<Rightarrow> error + (Pack list \<times> 'g)"

type_synonym 'g choice_fn = "'g \<Rightarrow> Pack list \<Rightarrow> error + (Pack \<times> 'g)"

definition positions_ok :: "nat \<Rightarrow> nat \<Rightarrow> nat list \<Rightarrow> bool" where
  "positions_ok n k ps \<longleftrightarrow> length ps = k \<and> distinct ps \<and> list_all (\<lambda>i. i < n) ps"

definition sample_contract :: "'g sample_fn \<Rightarrow> bool" where
  "sample_contract smp \<longleftrightarrow>
     (\<forall>g population k.
        (length population < k \<longrightarrow> smp g population k = Inl ValueError)
      \<and> (k \<le> length population \<longrightarrow>
           (\<exists>ps g'. positions_ok (length population) k ps
                     \<and> smp g population k = Inr (map ((!) population) ps, g'))))"

definition choice_contract :: "'g choice_fn \<Rightarrow> bool" where
  "choice_contract chc \<longleftrightarrow>
     (\<forall>g xs.
        (xs = [] \<longrightarrow> chc g xs = Inl IndexError)
      \<and> (xs \<noteq> [] \<longrightarrow> (\<exists>i g'. i < length xs \<and> chc g xs = Inr (xs ! i, g'))))"

definition DrawThreeStrategy_draft :: "'g sample_fn \<Rightarrow> 'g draft_method" where
  "DrawThreeStrategy_draft smp g packs =
     bind_err (smp g packs 3) (\<lambda>(chosen, g'). Inr (PyList chosen, g'))"

definition DrawFourStrategy_draft :: "'g sample_fn \<Rightarrow> 'g draft_method" where
  "DrawFourStrategy_draft smp g packs =
     bind_err (smp g packs 4) (\<lambda>(chosen, g'). Inr (PyList chosen, g'))"

definition DrawFiveStrategy_draft :: "'g sample_fn \<Rightarrow> 'g draft_method" where
  "DrawFiveStrategy_draft smp g packs =
     bind_err (smp g packs 5) (\<lambda>(chosen, g'). Inr (PyList chosen, g'))"

definition DrawSixStrategy_draft :: "'g sample_fn \<Rightarrow> 'g draft_method" where
  "DrawSixStrategy_draft smp g packs =
     bind_err (smp g packs 6) (\<lambda>(chosen, g'). Inr (PyList chosen, g'))"

definition DrawThreeTwiceStrategy_draft :: "'g sample_fn \<Rightarrow> 'g choice_fn \<Rightarrow> 'g draft_method" where
  "DrawThreeTwiceStrategy_draft smp chc g packs =
     bind_err (smp g packs 3) (\<lambda>(first_three, g1).
       let rest = filter (\<lambda>pack. pack \<notin> set first_three) packs in
       bind_err (chc g1 first_three) (\<lambda>(first_pick, g2).
       bind_err (smp g2 rest 3) (\<lambda>(second_three, g3).
         Inr (PyTuple first_pick second_three, g3))))"

text \<open>
  A deterministic generator for concrete runs: its state is a counter, \<open>sample\<close> takes
  \<open>k\<close> consecutive items and \<open>choice\<close> one item, both at an offset the counter gives.
\<close>

definition counter_sample :: "nat sample_fn" where
  "counter_sample g population k =
     (if length population < k then Inl ValueError
      else Inr (take k (drop (g mod (length population - k + 1)) population), Suc g))"

definition counter_choice :: "nat choice_fn" where
  "counter_choice g xs =
     (if xs = [] then Inl IndexError else Inr (xs ! (g mod length xs), Suc g))"

section \<open>Notions used to state the properties\<close>

text \<open>All keys of the match index, whatever their verdict, and the set of one verdict.\<close>

definition all_matches :: "MatchState \<Rightarrow> string set set" where
  "all_matches st =
     STRONG_MATCHES st \<union> MEDIUM_MATCHES st \<union> WEAK_MATCHES st \<union> UNPLAYABLE_MATCHES st"

fun verdict_set :: "Playability \<Rightarrow> MatchState \<Rightarrow> string set set" where
  "verdict_set STRONG st = STRONG_MATCHES st"
| "verdict_set MEDIUM st = MEDIUM_MATCHES st"
| "verdict_set WEAK st = WEAK_MATCHES st"
| "verdict_set UNPLAYABLE st = UNPLAYABLE_MATCHES st"

fun add_entry :: "Playability \<Rightarrow> string set \<Rightarrow> MatchState \<Rightarrow> MatchState" where
  "add_entry STRONG k st = st\<lparr>STRONG_MATCHES := insert k (STRONG_MATCHES st)\<rparr>"
| "add_entry MEDIUM k st = st\<lparr>MEDIUM_MATCHES := insert k (MEDIUM_MATCHES st)\<rparr>"
| "add_entry WEAK k st = st\<lparr>WEAK_MATCHES := insert k (WEAK_MATCHES st)\<rparr>"
| "add_entry UNPLAYABLE k st = st\<lparr>UNPLAYABLE_MATCHES := insert k (UNPLAYABLE_MATCHES st)\<rparr>"

text \<open>The label that \<open>__str__\<close> returns, and the key of a pair of packs.\<close>

definition display_label :: "Pack \<Rightarrow> string" where
  "display_label p = (case pack_str p of Inr l \<Rightarrow> l | Inl e \<Rightarrow> [])"

definition pair_entry :: "Pack \<times> Pack \<Rightarrow> string set" where
  "pair_entry pq = {display_label (fst pq), display_label (snd pq)}"

definition entries ::
  "string set set \<Rightarrow> Playability \<Rightarrow> (Pack \<times> Pack) list \<Rightarrow> string set set" where
  "entries S v pairs = pair_entry ` {pq \<in> set pairs. pair_playability (fst pq) (snd pq) S = v}"

text \<open>
  All pairs of positions \<open>i < j\<close> of a list, in the order of \<open>i\<close> and then of \<open>j\<close>, and
  the body of the counting loops run over a list of pairs.
\<close>

definition all_pairs :: "'a list \<Rightarrow> ('a \<times> 'a) list" where
  "all_pairs xs =
     concat (map (\<lambda>i. map (\<lambda>j. (xs ! i, xs ! j)) [Suc i..<length xs]) [0..<length xs])"

fun count_pairs :: "MatchState \<Rightarrow> (Pack \<times> Pack) list \<Rightarrow> DraftResult \<Rightarrow> error + DraftResult" where
  "count_pairs st [] draft_result = Inr draft_result"
| "count_pairs st ((pack_one, pack_two) # pairs) draft_result =
     bind_err (count_pair st pack_one pack_two draft_result) (count_pairs st pairs)"

definition counters_ordered :: "TotalResults \<Rightarrow> bool" where
  "counters_ordered r \<longleftrightarrow>
     strong_or_better r \<le> medium_or_better r \<and> medium_or_better r \<le> weak_or_better r
     \<and> weak_or_better r \<le> unplayable_or_better r \<and> unplayable_or_better r \<le> total_runs r"

section \<open>Concrete inputs\<close>

definition pack_W_bird :: Pack where
  "pack_W_bird = \<lparr>name = ''Lifecreed'', colours = [''W''], creature_types = [''Bird'']\<rparr>"

definition pack_WU_bird :: Pack where
  "pack_WU_bird = \<lparr>name = ''Birds'', colours = [''W'', ''U''], creature_types = [''Bird'']\<rparr>"

definition pack_W_kin :: Pack where
  "pack_W_kin =
     \<lparr>name = ''Brave-Kin'', colours = [''W''], creature_types = [''Mouse'', ''Rabbit'']\<rparr>"

definition pack_UG_frog :: Pack where
  "pack_UG_frog = \<lparr>name = ''Frogs'', colours = [''U'', ''G''], creature_types = [''Frog'']\<rparr>"

definition pack_R_mouse :: Pack where
  "pack_R_mouse = \<lparr>name = ''Roughshod'', colours = [''R''], creature_types = [''Mouse'']\<rparr>"

definition pack_B_rat :: Pack where
  "pack_B_rat = \<lparr>name = ''Daggerfang'', colours = [''B''], creature_types = [''Rat'']\<rparr>"

definition pack_G_squirrel :: Pack where
  "pack_G_squirrel =
     \<lparr>name = ''Treeguard'', colours = [''G''], creature_types = [''Squirrel'']\<rparr>"

text \<open>A pack that differs from \<open>pack_W_bird\<close> in its creature type only.\<close>

definition pack_W_rat :: Pack where
  "pack_W_rat = \<lparr>name = ''Lifecreed'', colours = [''W''], creature_types = [''Rat'']\<rparr>"

definition four_packs :: "Pack list" where
  "four_packs = [pack_W_bird, pack_WU_bird, pack_W_kin, pack_UG_frog]"

text \<open>The index that \<open>initialize\<close> builds of \<open>four_packs\<close>.\<close>

definition four_index :: MatchState where
  "four_index = \<lparr>
     STRONG_MATCHES = {{''W Lifecreed'', ''WU Birds''}},
     MEDIUM_MATCHES = {{''W Lifecreed'', ''W Brave-Kin''}},
     WEAK_MATCHES = {{''WU Birds'', ''W Brave-Kin''}, {''WU Birds'', ''UG Frogs''}},
     UNPLAYABLE_MATCHES = {{''W Lifecreed'', ''UG Frogs''}, {''W Brave-Kin'', ''UG Frogs''}},
     SYNERGISTIC_TYPE_PAIRS = {{''Mouse'', ''Rabbit''}}\<rparr>"

text \<open>
  Three packs of which two have the same label, and the index that \<open>initialize\<close> builds
  of them.
\<close>

definition same_label_packs :: "Pack list" where
  "same_label_packs = [pack_W_bird, pack_W_rat, pack_UG_frog]"

definition same_label_index :: MatchState where
  "same_label_index = \<lparr>
     STRONG_MATCHES = {},
     MEDIUM_MATCHES = {{''W Lifecreed''}},
     WEAK_MATCHES = {},
     UNPLAYABLE_MATCHES = {{''W Lifecreed'', ''UG Frogs''}},
     SYNERGISTIC_TYPE_PAIRS = {}\<rparr>"

definition six_packs :: "Pack list" where
  "six_packs =
     [pack_W_bird, pack_WU_bird, pack_R_mouse, pack_UG_frog, pack_B_rat, pack_G_squirrel]"

text \<open>A collection that holds one pack twice.\<close>

definition repeated_packs :: "Pack list" where
  "repeated_packs =
     [pack_W_bird, pack_WU_bird, pack_R_mouse, pack_UG_frog, pack_UG_frog, pack_G_squirrel]"

text \<open>A draft method that returns a given selection.\<close>

definition fixed_draft :: "drafted \<Rightarrow> nat draft_method" where
  "fixed_draft d g packs = Inr (d, Suc g)"

section \<open>Basic facts\<close>

lemma bind_err_simps [simp]:
  "bind_err (Inl e) f = Inl e"
  "bind_err (Inr v) f = f v"
  by (simp_all add: bind_err_def)

lemmas pack_defs = pack_W_bird_def pack_WU_bird_def pack_W_kin_def pack_UG_frog_def
  pack_R_mouse_def pack_B_rat_def pack_G_squirrel_def pack_W_rat_def

section \<open>The classifier\<close>

lemma synergistic_types_iff:
  "type_pair \<in> synergistic_types self pack_two pairs \<longleftrightarrow>
     type_pair \<in> pairs \<and> type_pair \<inter> set (creature_types pack_two) \<noteq> {}
       \<and> type_pair \<inter> set (creature_types self) \<noteq> {}"
  by (auto simp: synergistic_types_def)

lemma synergistic_types_commute:
  "synergistic_types a b pairs = synergistic_types b a pairs"
  by (auto simp: synergistic_types_iff)

lemma matching_types_commute: "matching_types a b = matching_types b a"
  by (auto simp: matching_types_def)

lemma matching_colours_commute: "matching_colours a b = matching_colours b a"
  by (auto simp: matching_colours_def)

lemma pair_playability_swap: "pair_playability a b S = pair_playability b a S"
  unfolding pair_playability_def
  by (simp only: matching_colours_commute [of a b] matching_types_commute [of a b]
      synergistic_types_commute [of a b S] max.commute [of "length (colours a)"])

text \<open>
  C1. For all packs \<open>a\<close>, \<open>b\<close> and every synergy index \<open>S\<close>, \<open>pair_playability\<close> follows the
  decision table: with a shared colour the verdict is Strong when the packs are linked
  (a matching type or a synergistic pair), else Medium when both packs are
  single-coloured (\<open>max(len(a.colours), len(b.colours)) == 1\<close>), else Weak; with no shared
  colour it is Medium or Weak (single-coloured or not) when the packs are linked, else
  Weak when both are single-coloured, else Unplayable.
\<close>

theorem pair_playability_decision_table:
  "pair_playability a b S =
     decision_table (matching_colours a b \<noteq> {})
       (matching_types a b \<noteq> {} \<or> synergistic_types a b S \<noteq> {})
       (max (length (colours a)) (length (colours b)) = 1)"
  unfolding pair_playability_def
  by (cases "matching_colours a b \<noteq> {}";
      cases "matching_types a b \<noteq> {} \<or> synergistic_types a b S \<noteq> {}";
      cases "max (length (colours a)) (length (colours b)) = 1") simp_all

theorem pair_playability_decision_table_witness:
  "pair_playability pack_WU_bird pack_W_bird {} = STRONG
   \<and> pair_playability pack_W_kin pack_W_bird {} = MEDIUM
   \<and> pair_playability pack_R_mouse pack_W_bird {} = WEAK
   \<and> pair_playability pack_UG_frog pack_W_bird {} = UNPLAYABLE
   \<and> pair_playability pack_R_mouse pack_W_bird {{''Bird'', ''Mouse''}} = MEDIUM"
  using pair_playability_decision_table [of pack_WU_bird pack_W_bird "{}"]
    pair_playability_decision_table [of pack_W_kin pack_W_bird "{}"]
    pair_playability_decision_table [of pack_R_mouse pack_W_bird "{}"]
    pair_playability_decision_table [of pack_UG_frog pack_W_bird "{}"]
    pair_playability_decision_table [of pack_R_mouse pack_W_bird "{{''Bird'', ''Mouse''}}"]
  by (simp add: pack_defs matching_colours_def matching_types_def synergistic_types_def)

text \<open>
  C2. For all packs \<open>a\<close>, \<open>b\<close> and every synergy index \<open>S\<close>, swapping the two packs does not
  change the verdict of \<open>pair_playability\<close>.
\<close>

theorem pair_playability_symmetric:
  "pair_playability a b S = pair_playability b a S"
  by (rule pair_playability_swap)

theorem pair_playability_symmetric_witness:
  "pair_playability pack_WU_bird pack_R_mouse {{''Bird'', ''Mouse''}} = WEAK
   \<and> pair_playability pack_R_mouse pack_WU_bird {{''Bird'', ''Mouse''}} = WEAK"
  using pair_playability_symmetric [of pack_WU_bird pack_R_mouse "{{''Bird'', ''Mouse''}}"]
  by (simp add: pair_playability_def pack_defs
      matching_colours_def matching_types_def synergistic_types_def)

text \<open>
  C3. \<open>synergistic_types a b S\<close> is exactly the set of the type pairs of \<open>S\<close> that have an
  element among the creature types of \<open>b\<close> and an element among the creature types of \<open>a\<close>;
  in particular a pair of \<open>S\<close> qualifies through one single type that both packs have.
\<close>

theorem synergistic_types_exact:
  "synergistic_types a b S =
     {type_pair \<in> S. (\<exists>t \<in> type_pair. t \<in> set (creature_types b))
                     \<and> (\<exists>t \<in> type_pair. t \<in> set (creature_types a))}
   \<and> (\<forall>type_pair t. type_pair \<in> S \<and> t \<in> type_pair
          \<and> t \<in> set (creature_types a) \<and> t \<in> set (creature_types b)
        \<longrightarrow> type_pair \<in> synergistic_types a b S)"
  by (auto simp: synergistic_types_def)

theorem synergistic_types_exact_witness:
  "{''Bird'', ''Mouse''}
     \<in> synergistic_types pack_W_bird pack_WU_bird {{''Bird'', ''Mouse''}, {''Rat'', ''Frog''}}
   \<and> synergistic_types pack_W_bird pack_WU_bird {{''Bird'', ''Mouse''}, {''Rat'', ''Frog''}}
       = {{''Bird'', ''Mouse''}}
   \<and> synergistic_types pack_W_bird pack_R_mouse {{''Bird'', ''Mouse''}, {''Rat'', ''Frog''}}
       = {{''Bird'', ''Mouse''}}"
  using synergistic_types_exact [of pack_W_bird pack_WU_bird
      "{{''Bird'', ''Mouse''}, {''Rat'', ''Frog''}}"]
    synergistic_types_exact [of pack_W_bird pack_R_mouse
      "{{''Bird'', ''Mouse''}, {''Rat'', ''Frog''}}"]
  by (auto simp: pack_defs)

section \<open>Display labels\<close>

lemma str_join_strings: "str_join [] (map PyStr xs) = Inr (concat xs)"
  by (induction xs) simp_all

lemma str_join_Colour: "str_join sep (map PyStr xs @ PyColour c # items) = Inl TypeError"
  by (induction xs) simp_all

lemma pack_str_eq: "pack_str p = Inr (concat (colours p) @ '' '' @ name p)"
  by (simp add: pack_str_def str_join_strings)

lemma display_label_eq: "display_label p = concat (colours p) @ '' '' @ name p"
  by (simp add: display_label_def pack_str_eq)

lemma pack_str_label: "pack_str p = Inr (display_label p)"
  by (simp add: pack_str_eq display_label_eq)

lemma pair_key_eq: "pair_key p q = Inr (pair_entry (p, q))"
  by (simp add: pair_key_def pair_entry_def pack_str_label)

lemma pack_labels:
  "display_label pack_W_bird = ''W Lifecreed''" "display_label pack_WU_bird = ''WU Birds''"
  "display_label pack_W_kin = ''W Brave-Kin''" "display_label pack_UG_frog = ''UG Frogs''"
  "display_label pack_R_mouse = ''R Roughshod''" "display_label pack_B_rat = ''B Daggerfang''"
  "display_label pack_G_squirrel = ''G Treeguard''" "display_label pack_W_rat = ''W Lifecreed''"
  by (simp_all add: display_label_eq pack_defs)

section \<open>The match index\<close>

lemma in_all_matches: "k \<in> all_matches st \<longleftrightarrow> (\<exists>v. k \<in> verdict_set v st)"
proof
  assume "k \<in> all_matches st"
  then have "k \<in> verdict_set STRONG st \<or> k \<in> verdict_set MEDIUM st
      \<or> k \<in> verdict_set WEAK st \<or> k \<in> verdict_set UNPLAYABLE st"
    by (simp add: all_matches_def)
  then show "\<exists>v. k \<in> verdict_set v st" by blast
next
  assume "\<exists>v. k \<in> verdict_set v st"
  then obtain v where "k \<in> verdict_set v st" ..
  then show "k \<in> all_matches st"
    by (cases v) (simp_all add: all_matches_def)
qed

lemma record_pair_eq:
  assumes "pair_key p q = Inr k"
  shows "record_pair p q st = Inr (add_entry (pair_playability p q (SYNERGISTIC_TYPE_PAIRS st)) k st)"
  using assms
  by (cases "pair_playability p q (SYNERGISTIC_TYPE_PAIRS st)") (simp_all add: record_pair_def)

lemma verdict_set_add_entry:
  "verdict_set v (add_entry w k st) = (if v = w then insert k (verdict_set v st) else verdict_set v st)"
  by (cases v; cases w) simp_all

lemma synergies_add_entry: "SYNERGISTIC_TYPE_PAIRS (add_entry w k st) = SYNERGISTIC_TYPE_PAIRS st"
  by (cases w) simp_all

lemma entries_single:
  "entries S v [(p, q)] = (if pair_playability p q S = v then {pair_entry (p, q)} else {})"
  by (auto simp: entries_def)

lemma record_pair_entries:
  "\<exists>st'. record_pair p q st = Inr st'
           \<and> SYNERGISTIC_TYPE_PAIRS st' = SYNERGISTIC_TYPE_PAIRS st
           \<and> (\<forall>v. verdict_set v st' =
                 verdict_set v st \<union> entries (SYNERGISTIC_TYPE_PAIRS st) v [(p, q)])"
  unfolding record_pair_eq [OF pair_key_eq]
  by (auto simp: verdict_set_add_entry synergies_add_entry entries_single)

lemma entries_append: "entries S v (xs @ ys) = entries S v xs \<union> entries S v ys"
  by (auto simp: entries_def)

lemma entries_Nil: "entries S v [] = {}"
  by (simp add: entries_def)

lemma all_pairs_Nil: "all_pairs [] = []"
  by (simp add: all_pairs_def)

lemma all_pairs_Cons: "all_pairs (x # xs) = map (Pair x) xs @ all_pairs xs"
proof -
  have u: "[Suc i..<Suc n] = map Suc [i..<n]" for i n
    by (simp add: map_Suc_upt)
  have "[0..<length (x # xs)] = 0 # map Suc [0..<length xs]"
    by (simp add: upt_conv_Cons map_Suc_upt del: upt_Suc)
  then have "all_pairs (x # xs) =
      map (\<lambda>j. (x, (x # xs) ! j)) [Suc 0..<Suc (length xs)]
      @ concat (map (\<lambda>i. map (\<lambda>j. ((x # xs) ! Suc i, (x # xs) ! j)) [Suc (Suc i)..<Suc (length xs)])
                 [0..<length xs])"
    by (simp add: all_pairs_def comp_def del: upt_Suc)
  also have "map (\<lambda>j. (x, (x # xs) ! j)) [Suc 0..<Suc (length xs)] = map (Pair x) xs"
    unfolding u by (intro nth_equalityI) (simp_all del: upt_Suc)
  also have "concat (map (\<lambda>i. map (\<lambda>j. ((x # xs) ! Suc i, (x # xs) ! j)) [Suc (Suc i)..<Suc (length xs)])
                 [0..<length xs]) = all_pairs xs"
    unfolding u all_pairs_def by (simp add: comp_def del: upt_Suc)
  finally show ?thesis .
qed

lemma length_all_pairs: "length (all_pairs xs) = length xs choose 2"
  by (induction xs) (simp_all add: all_pairs_Nil all_pairs_Cons numeral_2_eq_2)

lemma all_pairs_members:
  "(p, q) \<in> set (all_pairs xs) \<longleftrightarrow> (\<exists>i j. i < j \<and> j < length xs \<and> p = xs ! i \<and> q = xs ! j)"
proof
  assume "(p, q) \<in> set (all_pairs xs)"
  then obtain i j where "i < length xs" and "j \<in> {Suc i..<length xs}"
    and "(p, q) = (xs ! i, xs ! j)"
    unfolding all_pairs_def by auto
  then have "i < j \<and> j < length xs \<and> p = xs ! i \<and> q = xs ! j" by auto
  then show "\<exists>i j. i < j \<and> j < length xs \<and> p = xs ! i \<and> q = xs ! j" by blast
next
  assume "\<exists>i j. i < j \<and> j < length xs \<and> p = xs ! i \<and> q = xs ! j"
  then obtain i j where ij: "i < j" "j < length xs" and pq: "p = xs ! i" "q = xs ! j"
    by blast
  from ij have "i \<in> {0..<length xs}" and "j \<in> {Suc i..<length xs}" by auto
  then have "(xs ! i, xs ! j) \<in> (\<Union>i\<in>{0..<length xs}. (\<lambda>j. (xs ! i, xs ! j)) ` {Suc i..<length xs})"
    by blast
  then show "(p, q) \<in> set (all_pairs xs)"
    unfolding all_pairs_def pq by (simp del: upt_Suc)
qed

lemma all_pairs_in_set: "(p, q) \<in> set (all_pairs xs) \<Longrightarrow> p \<in> set xs \<and> q \<in> set xs"
  by (auto simp: all_pairs_members)

lemma record_remaining_entries:
  "\<exists>st'. record_remaining p rest st = Inr st'
           \<and> SYNERGISTIC_TYPE_PAIRS st' = SYNERGISTIC_TYPE_PAIRS st
           \<and> (\<forall>v. verdict_set v st' =
                 verdict_set v st \<union> entries (SYNERGISTIC_TYPE_PAIRS st) v (map (Pair p) rest))"
proof (induction rest arbitrary: st)
  case Nil
  then show ?case by (simp add: entries_Nil)
next
  case (Cons q rest)
  from record_pair_entries [of p q st] obtain st1 where
    r: "record_pair p q st = Inr st1" and
    s: "SYNERGISTIC_TYPE_PAIRS st1 = SYNERGISTIC_TYPE_PAIRS st" and
    v: "\<forall>v. verdict_set v st1 = verdict_set v st \<union> entries (SYNERGISTIC_TYPE_PAIRS st) v [(p, q)]"
    by blast
  from Cons.IH [of st1] obtain st2 where
    r2: "record_remaining p rest st1 = Inr st2" and
    s2: "SYNERGISTIC_TYPE_PAIRS st2 = SYNERGISTIC_TYPE_PAIRS st1" and
    v2: "\<forall>v. verdict_set v st2 =
            verdict_set v st1 \<union> entries (SYNERGISTIC_TYPE_PAIRS st1) v (map (Pair p) rest)"
    by blast
  have e: "entries (SYNERGISTIC_TYPE_PAIRS st) v (map (Pair p) (q # rest)) =
        entries (SYNERGISTIC_TYPE_PAIRS st) v [(p, q)]
        \<union> entries (SYNERGISTIC_TYPE_PAIRS st) v (map (Pair p) rest)" for v
    using entries_append [of _ _ "[(p, q)]" "map (Pair p) rest"] by simp
  have r3: "record_remaining p (q # rest) st = Inr st2"
    using r r2 by simp
  have s3: "SYNERGISTIC_TYPE_PAIRS st2 = SYNERGISTIC_TYPE_PAIRS st"
    using s s2 by simp
  have v3: "verdict_set v st2 =
        verdict_set v st \<union> entries (SYNERGISTIC_TYPE_PAIRS st) v (map (Pair p) (q # rest))" for v
    unfolding e using v2 [rule_format, of v] v [rule_format, of v] s
    by (simp only: Un_assoc)
  from r3 s3 v3 show ?case by blast
qed

lemma record_all_entries:
  "\<exists>st'. record_all packs st = Inr st'
           \<and> SYNERGISTIC_TYPE_PAIRS st' = SYNERGISTIC_TYPE_PAIRS st
           \<and> (\<forall>v. verdict_set v st' =
                 verdict_set v st \<union> entries (SYNERGISTIC_TYPE_PAIRS st) v (all_pairs packs))"
proof (induction packs arbitrary: st)
  case Nil
  then show ?case by (simp add: entries_Nil all_pairs_Nil)
next
  case (Cons p packs)
  from record_remaining_entries [of p packs st] obtain st1 where
    r: "record_remaining p packs st = Inr st1" and
    s: "SYNERGISTIC_TYPE_PAIRS st1 = SYNERGISTIC_TYPE_PAIRS st" and
    v: "\<forall>v. verdict_set v st1 =
           verdict_set v st \<union> entries (SYNERGISTIC_TYPE_PAIRS st) v (map (Pair p) packs)"
    by blast
  from Cons.IH [of st1] obtain st2 where
    r2: "record_all packs st1 = Inr st2" and
    s2: "SYNERGISTIC_TYPE_PAIRS st2 = SYNERGISTIC_TYPE_PAIRS st1" and
    v2: "\<forall>v. verdict_set v st2 =
            verdict_set v st1 \<union> entries (SYNERGISTIC_TYPE_PAIRS st1) v (all_pairs packs)"
    by blast
  have r3: "record_all (p # packs) st = Inr st2"
    using r r2 by simp
  have s3: "SYNERGISTIC_TYPE_PAIRS st2 = SYNERGISTIC_TYPE_PAIRS st"
    using s s2 by simp
  have v3: "verdict_set v st2 =
        verdict_set v st \<union> entries (SYNERGISTIC_TYPE_PAIRS st) v (all_pairs (p # packs))" for v
    unfolding all_pairs_Cons entries_append using v2 [rule_format, of v] v [rule_format, of v] s
    by (simp only: Un_assoc)
  from r3 s3 v3 show ?case by blast
qed

lemma distinct_entries:
  "distinct (map display_label packs) \<Longrightarrow> distinct (map pair_entry (all_pairs packs))"
proof (induction packs)
  case Nil
  then show ?case by (simp add: all_pairs_Nil)
next
  case (Cons p packs)
  from Cons.prems have np: "display_label p \<notin> display_label ` set packs"
    and d: "distinct (map display_label packs)" by simp_all
  have 1: "distinct (map pair_entry (map (Pair p) packs))"
  proof -
    have "map pair_entry (map (Pair p) packs)
          = map (\<lambda>l. {display_label p, l}) (map display_label packs)"
      by (simp add: pair_entry_def comp_def)
    moreover have "inj_on (\<lambda>l. {display_label p, l}) A" for A
      by (auto simp: inj_on_def doubleton_eq_iff)
    ultimately show ?thesis using d by (simp only: distinct_map)
  qed
  have 2: "distinct (map pair_entry (all_pairs packs))" by (rule Cons.IH [OF d])
  have 3: "set (map pair_entry (map (Pair p) packs)) \<inter> set (map pair_entry (all_pairs packs)) = {}"
  proof -
    have "display_label p \<in> k" if "k \<in> set (map pair_entry (map (Pair p) packs))" for k
      using that by (auto simp: pair_entry_def)
    moreover have "display_label p \<notin> k" if "k \<in> set (map pair_entry (all_pairs packs))" for k
      using that np by (auto simp: pair_entry_def dest!: all_pairs_in_set)
    ultimately show ?thesis by blast
  qed
  from 1 2 3 show ?case by (simp add: all_pairs_Cons)
qed

lemma entries_disjoint:
  assumes "distinct (map pair_entry pairs)" and "v \<noteq> w"
  shows "entries S v pairs \<inter> entries S w pairs = {}"
proof -
  from assms(1) have "inj_on pair_entry (set pairs)" by (simp add: distinct_map)
  with assms(2) show ?thesis unfolding entries_def inj_on_def by blast
qed

lemma entries_Union: "(\<Union>v. entries S v pairs) = pair_entry ` set pairs"
  by (auto simp: entries_def)

lemma finite_entries: "finite (entries S v pairs)"
  by (simp add: entries_def)

lemma card_entries_sum:
  assumes "distinct (map pair_entry pairs)"
  shows "card (entries S STRONG pairs) + card (entries S MEDIUM pairs)
         + card (entries S WEAK pairs) + card (entries S UNPLAYABLE pairs) = length pairs"
proof -
  have u: "pair_entry ` set pairs =
        entries S STRONG pairs \<union> entries S MEDIUM pairs \<union> entries S WEAK pairs
          \<union> entries S UNPLAYABLE pairs" (is "_ = ?A \<union> ?B \<union> ?C \<union> ?D")
  proof -
    have "pair_playability (fst pq) (snd pq) S \<in> {STRONG, MEDIUM, WEAK, UNPLAYABLE}" for pq
      by (cases "pair_playability (fst pq) (snd pq) S") simp_all
    then show ?thesis unfolding entries_def by blast
  qed
  have "card (?A \<union> ?B \<union> ?C \<union> ?D) = card (?A \<union> ?B \<union> ?C) + card ?D"
    using entries_disjoint [OF assms, of _ UNPLAYABLE S]
    by (intro card_Un_disjoint) (auto simp: finite_entries Int_Un_distrib2)
  also have "card (?A \<union> ?B \<union> ?C) = card (?A \<union> ?B) + card ?C"
    using entries_disjoint [OF assms, of _ WEAK S]
    by (intro card_Un_disjoint) (auto simp: finite_entries Int_Un_distrib2)
  also have "card (?A \<union> ?B) = card ?A + card ?B"
    using entries_disjoint [OF assms, of STRONG MEDIUM S]
    by (intro card_Un_disjoint) (auto simp: finite_entries)
  finally have "card ?A + card ?B + card ?C + card ?D = card (pair_entry ` set pairs)"
    unfolding u by simp
  also have "\<dots> = length pairs"
    using assms distinct_card [of "map pair_entry pairs"] by simp
  finally show ?thesis .
qed

lemma verdict_set_module_state:
  "verdict_set v (module_state\<lparr>SYNERGISTIC_TYPE_PAIRS := S\<rparr>) = {}"
  by (cases v) (simp_all add: module_state_def)

lemma initialize_entries:
  "\<exists>st. initialize packs module_state = Inr st
           \<and> SYNERGISTIC_TYPE_PAIRS st = add_synergies packs {}
           \<and> (\<forall>v. verdict_set v st = entries (add_synergies packs {}) v (all_pairs packs))"
proof -
  from record_all_entries [of packs
      "module_state\<lparr>SYNERGISTIC_TYPE_PAIRS := add_synergies packs {}\<rparr>"]
  obtain st where
    r: "record_all packs (module_state\<lparr>SYNERGISTIC_TYPE_PAIRS := add_synergies packs {}\<rparr>) = Inr st"
    and s: "SYNERGISTIC_TYPE_PAIRS st = add_synergies packs {}"
    and v: "\<forall>v. verdict_set v st = entries (add_synergies packs {}) v (all_pairs packs)"
    by (auto simp: verdict_set_module_state)
  from r have "initialize packs module_state = Inr st"
    by (simp add: initialize_def module_state_def)
  with s v show ?thesis by blast
qed

lemma pair_entry_swap: "pair_entry (p, q) = pair_entry (q, p)"
  by (auto simp: pair_entry_def)

lemma entries_member:
  assumes "distinct (map pair_entry pairs)" and "(p, q) \<in> set pairs"
  shows "pair_entry (p, q) \<in> entries S w pairs \<longleftrightarrow> w = pair_playability p q S"
proof -
  from assms(1) have "inj_on pair_entry (set pairs)" by (simp add: distinct_map)
  with assms(2) show ?thesis unfolding entries_def inj_on_def by force
qed

text \<open>
  C4 (as amended). Let the display labels of the packs of the collection be pairwise
  different. Then \<open>initialize\<close>, run on the empty module state, returns; the keys of the
  four sets are exactly the sets of the two labels of the packs at positions \<open>i < j\<close>;
  the four sets hold \<open>n * (n - 1) / 2\<close> keys in total, and as many different keys; and for
  two different positions the key is the same in either order of the two packs and lies
  in the set of the pair's verdict and in no other.
\<close>

theorem initialize_index_entries:
  assumes "distinct (map pack_str packs)"
  shows "\<exists>st. initialize packs module_state = Inr st
     \<and> all_matches st =
         {{display_label (packs ! i), display_label (packs ! j)} | i j. i < j \<and> j < length packs}
     \<and> card (STRONG_MATCHES st) + card (MEDIUM_MATCHES st) + card (WEAK_MATCHES st)
         + card (UNPLAYABLE_MATCHES st) = length packs * (length packs - 1) div 2
     \<and> card (all_matches st) = length packs * (length packs - 1) div 2
     \<and> (\<forall>i j. i < length packs \<and> j < length packs \<and> i \<noteq> j \<longrightarrow>
           pair_key (packs ! i) (packs ! j) = pair_key (packs ! j) (packs ! i)
         \<and> (\<exists>k. pair_key (packs ! i) (packs ! j) = Inr k
                \<and> (\<forall>w. k \<in> verdict_set w st \<longleftrightarrow>
                      w = pair_playability (packs ! i) (packs ! j) (SYNERGISTIC_TYPE_PAIRS st))))"
proof -
  let ?S = "add_synergies packs {}"
  let ?P = "all_pairs packs"
  have "map pack_str packs = map Inr (map display_label packs)"
    by (simp add: pack_str_label)
  with assms have dl: "distinct (map display_label packs)"
    by (simp only: distinct_map)
  from initialize_entries [of packs] obtain st where
    r: "initialize packs module_state = Inr st" and
    s: "SYNERGISTIC_TYPE_PAIRS st = ?S" and
    v: "\<And>v. verdict_set v st = entries ?S v ?P"
    by blast
  have d: "distinct (map pair_entry ?P)" by (rule distinct_entries [OF dl])
  have n: "length ?P = length packs * (length packs - 1) div 2"
    by (simp add: length_all_pairs choose_two)
  have "all_matches st = (\<Union>v. verdict_set v st)"
    by (auto simp: in_all_matches)
  then have am: "all_matches st = pair_entry ` set ?P"
    by (simp only: v entries_Union)
  have 1: "all_matches st =
         {{display_label (packs ! i), display_label (packs ! j)} | i j. i < j \<and> j < length packs}"
  proof (intro set_eqI iffI)
    fix k assume "k \<in> all_matches st"
    then obtain p q where "(p, q) \<in> set ?P" and "k = pair_entry (p, q)"
      unfolding am by auto
    then show "k \<in> {{display_label (packs ! i), display_label (packs ! j)} | i j.
                     i < j \<and> j < length packs}"
      by (auto simp: all_pairs_members pair_entry_def)
  next
    fix k assume "k \<in> {{display_label (packs ! i), display_label (packs ! j)} | i j.
                     i < j \<and> j < length packs}"
    then obtain i j where "i < j" "j < length packs"
      and k: "k = {display_label (packs ! i), display_label (packs ! j)}" by blast
    then have "(packs ! i, packs ! j) \<in> set ?P" by (auto simp: all_pairs_members)
    then have "pair_entry (packs ! i, packs ! j) \<in> pair_entry ` set ?P" by (rule imageI)
    then show "k \<in> all_matches st" unfolding am k by (simp add: pair_entry_def)
  qed
  have 2: "card (STRONG_MATCHES st) + card (MEDIUM_MATCHES st) + card (WEAK_MATCHES st)
         + card (UNPLAYABLE_MATCHES st) = length packs * (length packs - 1) div 2"
    using card_entries_sum [OF d, of ?S] v [of STRONG] v [of MEDIUM] v [of WEAK] v [of UNPLAYABLE] n
    by simp
  have 3: "card (all_matches st) = length packs * (length packs - 1) div 2"
    unfolding am using d distinct_card [of "map pair_entry ?P"] n by simp
  have lt: "pair_key (packs ! i) (packs ! j) = Inr (pair_entry (packs ! i, packs ! j))
        \<and> pair_key (packs ! j) (packs ! i) = Inr (pair_entry (packs ! i, packs ! j))
        \<and> (\<forall>w. pair_entry (packs ! i, packs ! j) \<in> verdict_set w st \<longleftrightarrow>
                   w = pair_playability (packs ! i) (packs ! j) ?S)"
    if "i < j" "j < length packs" for i j
  proof -
    from that have m: "(packs ! i, packs ! j) \<in> set ?P" by (auto simp: all_pairs_members)
    show ?thesis
      using pair_key_eq [of "packs ! i" "packs ! j"] pair_key_eq [of "packs ! j" "packs ! i"]
        pair_entry_swap [of "packs ! j" "packs ! i"] entries_member [OF d m, of ?S]
      by (simp add: v)
  qed
  have 4: "pair_key (packs ! i) (packs ! j) = pair_key (packs ! j) (packs ! i)
         \<and> (\<exists>k. pair_key (packs ! i) (packs ! j) = Inr k
                \<and> (\<forall>w. k \<in> verdict_set w st \<longleftrightarrow>
                      w = pair_playability (packs ! i) (packs ! j) (SYNERGISTIC_TYPE_PAIRS st)))"
    if "i < length packs \<and> j < length packs \<and> i \<noteq> j" for i j
  proof (cases "i < j")
    case True
    with that lt [of i j] show ?thesis unfolding s by simp
  next
    case False
    with that have "j < i" "i < length packs" by simp_all
    from lt [OF this] show ?thesis
      unfolding s pair_playability_swap [of "packs ! i" "packs ! j"] by simp
  qed
  from r 1 2 3 4 show ?thesis by blast
qed

lemma four_keys:
  "pair_key pack_W_bird pack_WU_bird = Inr {''W Lifecreed'', ''WU Birds''}"
  "pair_key pack_W_bird pack_W_kin = Inr {''W Lifecreed'', ''W Brave-Kin''}"
  "pair_key pack_W_bird pack_UG_frog = Inr {''W Lifecreed'', ''UG Frogs''}"
  "pair_key pack_WU_bird pack_W_kin = Inr {''WU Birds'', ''W Brave-Kin''}"
  "pair_key pack_WU_bird pack_UG_frog = Inr {''WU Birds'', ''UG Frogs''}"
  "pair_key pack_W_kin pack_UG_frog = Inr {''W Brave-Kin'', ''UG Frogs''}"
  by (simp_all add: pair_key_eq pair_entry_def pack_labels)

lemma four_verdicts:
  "pair_playability pack_W_bird pack_WU_bird {{''Mouse'', ''Rabbit''}} = STRONG"
  "pair_playability pack_W_bird pack_W_kin {{''Mouse'', ''Rabbit''}} = MEDIUM"
  "pair_playability pack_W_bird pack_UG_frog {{''Mouse'', ''Rabbit''}} = UNPLAYABLE"
  "pair_playability pack_WU_bird pack_W_kin {{''Mouse'', ''Rabbit''}} = WEAK"
  "pair_playability pack_WU_bird pack_UG_frog {{''Mouse'', ''Rabbit''}} = WEAK"
  "pair_playability pack_W_kin pack_UG_frog {{''Mouse'', ''Rabbit''}} = UNPLAYABLE"
  by (auto simp: pair_playability_def matching_colours_def matching_types_def
      synergistic_types_def pack_defs)

lemma four_record_pairs:
  "SYNERGISTIC_TYPE_PAIRS st = {{''Mouse'', ''Rabbit''}} \<Longrightarrow>
     record_pair pack_W_bird pack_WU_bird st
       = Inr (add_entry STRONG {''W Lifecreed'', ''WU Birds''} st)"
  "SYNERGISTIC_TYPE_PAIRS st = {{''Mouse'', ''Rabbit''}} \<Longrightarrow>
     record_pair pack_W_bird pack_W_kin st
       = Inr (add_entry MEDIUM {''W Lifecreed'', ''W Brave-Kin''} st)"
  "SYNERGISTIC_TYPE_PAIRS st = {{''Mouse'', ''Rabbit''}} \<Longrightarrow>
     record_pair pack_W_bird pack_UG_frog st
       = Inr (add_entry UNPLAYABLE {''W Lifecreed'', ''UG Frogs''} st)"
  "SYNERGISTIC_TYPE_PAIRS st = {{''Mouse'', ''Rabbit''}} \<Longrightarrow>
     record_pair pack_WU_bird pack_W_kin st
       = Inr (add_entry WEAK {''WU Birds'', ''W Brave-Kin''} st)"
  "SYNERGISTIC_TYPE_PAIRS st = {{''Mouse'', ''Rabbit''}} \<Longrightarrow>
     record_pair pack_WU_bird pack_UG_frog st
       = Inr (add_entry WEAK {''WU Birds'', ''UG Frogs''} st)"
  "SYNERGISTIC_TYPE_PAIRS st = {{''Mouse'', ''Rabbit''}} \<Longrightarrow>
     record_pair pack_W_kin pack_UG_frog st
       = Inr (add_entry UNPLAYABLE {''W Brave-Kin'', ''UG Frogs''} st)"
  by (simp_all add: record_pair_eq [OF four_keys(1)] record_pair_eq [OF four_keys(2)]
      record_pair_eq [OF four_keys(3)] record_pair_eq [OF four_keys(4)]
      record_pair_eq [OF four_keys(5)] record_pair_eq [OF four_keys(6)] four_verdicts)

lemma four_synergies: "add_synergies four_packs {} = {{''Mouse'', ''Rabbit''}}"
  by (simp add: four_packs_def pack_defs)

lemma initialize_four: "initialize four_packs module_state = Inr four_index"
proof -
  have "record_all four_packs (module_state\<lparr>SYNERGISTIC_TYPE_PAIRS := {{''Mouse'', ''Rabbit''}}\<rparr>)
      = Inr four_index"
    unfolding four_packs_def module_state_def
    by (simp add: four_record_pairs four_index_def insert_commute)
  then show ?thesis
    by (simp add: initialize_def four_synergies module_state_def)
qed

lemma four_labels_distinct: "distinct (map pack_str four_packs)"
  by (simp add: four_packs_def pack_str_label pack_labels)

theorem initialize_index_entries_witness:
  "distinct (map pack_str four_packs)
   \<and> initialize four_packs module_state = Inr four_index
   \<and> card (STRONG_MATCHES four_index) + card (MEDIUM_MATCHES four_index)
       + card (WEAK_MATCHES four_index) + card (UNPLAYABLE_MATCHES four_index) = 6
   \<and> card (all_matches four_index) = 6"
proof -
  from initialize_index_entries [OF four_labels_distinct] obtain st where
    r: "initialize four_packs module_state = Inr st" and
    c: "card (STRONG_MATCHES st) + card (MEDIUM_MATCHES st) + card (WEAK_MATCHES st)
         + card (UNPLAYABLE_MATCHES st) = length four_packs * (length four_packs - 1) div 2" and
    a: "card (all_matches st) = length four_packs * (length four_packs - 1) div 2"
    by blast
  from r have st: "st = four_index" by (simp add: initialize_four)
  have "length four_packs * (length four_packs - 1) div 2 = 6" by (simp add: four_packs_def)
  with c a four_labels_distinct show ?thesis unfolding st by (simp add: initialize_four)
qed

lemma same_label_keys:
  "pair_key pack_W_bird pack_W_rat = Inr {''W Lifecreed''}"
  "pair_key pack_W_bird pack_UG_frog = Inr {''W Lifecreed'', ''UG Frogs''}"
  "pair_key pack_W_rat pack_UG_frog = Inr {''W Lifecreed'', ''UG Frogs''}"
  by (simp_all add: pair_key_eq pair_entry_def pack_labels)

lemma same_label_verdicts:
  "pair_playability pack_W_bird pack_W_rat {} = MEDIUM"
  "pair_playability pack_W_bird pack_UG_frog {} = UNPLAYABLE"
  "pair_playability pack_W_rat pack_UG_frog {} = UNPLAYABLE"
  by (auto simp: pair_playability_def matching_colours_def matching_types_def
      synergistic_types_def pack_defs)

lemma same_label_record_pairs:
  "SYNERGISTIC_TYPE_PAIRS st = {} \<Longrightarrow>
     record_pair pack_W_bird pack_W_rat st = Inr (add_entry MEDIUM {''W Lifecreed''} st)"
  "SYNERGISTIC_TYPE_PAIRS st = {} \<Longrightarrow>
     record_pair pack_W_bird pack_UG_frog st
       = Inr (add_entry UNPLAYABLE {''W Lifecreed'', ''UG Frogs''} st)"
  "SYNERGISTIC_TYPE_PAIRS st = {} \<Longrightarrow>
     record_pair pack_W_rat pack_UG_frog st
       = Inr (add_entry UNPLAYABLE {''W Lifecreed'', ''UG Frogs''} st)"
  by (simp_all add: record_pair_eq [OF same_label_keys(1)] record_pair_eq [OF same_label_keys(2)]
      record_pair_eq [OF same_label_keys(3)] same_label_verdicts)

lemma same_label_synergies: "add_synergies same_label_packs {} = {}"
  by (simp add: same_label_packs_def pack_defs)

text \<open>
  Three different packs of which two have the same colours and name, and so the same
  label: \<open>initialize\<close> returns an index of two keys, not three.
\<close>

theorem initialize_same_label_counterexample:
  "distinct same_label_packs
   \<and> initialize same_label_packs module_state = Inr same_label_index
   \<and> card (STRONG_MATCHES same_label_index) + card (MEDIUM_MATCHES same_label_index)
       + card (WEAK_MATCHES same_label_index) + card (UNPLAYABLE_MATCHES same_label_index) = 2
   \<and> card (all_matches same_label_index) = 2
   \<and> length same_label_packs * (length same_label_packs - 1) div 2 = 3"
proof -
  have "record_all same_label_packs (module_state\<lparr>SYNERGISTIC_TYPE_PAIRS := {}\<rparr>)
      = Inr same_label_index"
    unfolding same_label_packs_def module_state_def
    by (simp add: same_label_record_pairs same_label_index_def insert_commute)
  then have "initialize same_label_packs module_state = Inr same_label_index"
    by (simp add: initialize_def same_label_synergies module_state_def)
  moreover have "distinct same_label_packs" by (simp add: same_label_packs_def pack_defs)
  ultimately show ?thesis
    by (simp add: same_label_index_def all_matches_def same_label_packs_def)
qed

section \<open>Counting the pairs of a draft\<close>

lemma count_pair_unindexed:
  "pair_key p1 p2 = Inr pair \<Longrightarrow> pair \<notin> all_matches st \<Longrightarrow> count_pair st p1 p2 dr = Inr dr"
  by (simp add: count_pair_def all_matches_def)

lemma count_pairs_append:
  "count_pairs st (xs @ ys) dr = bind_err (count_pairs st xs dr) (count_pairs st ys)"
  by (induction xs arbitrary: dr) (auto simp: bind_err_def split: sum.splits)

lemma count_remaining_pairs:
  "count_remaining st a rest dr = count_pairs st (map (Pair a) rest) dr"
  by (induction rest arbitrary: dr) (auto simp: bind_err_def split: sum.splits)

lemma count_drafted_pairs:
  "count_drafted st xs dr = count_pairs st (all_pairs xs) dr"
proof (induction xs arbitrary: dr)
  case Nil
  then show ?case by (simp add: all_pairs_Nil)
next
  case (Cons x xs)
  show ?case
  proof (cases "xs = []")
    case True
    then show ?thesis by (simp add: all_pairs_Cons all_pairs_Nil)
  next
    case False
    then show ?thesis
      by (simp add: all_pairs_Cons count_pairs_append count_remaining_pairs Cons.IH
          bind_err_def split: sum.splits)
  qed
qed

lemma count_pairs_unindexed:
  "\<forall>pq \<in> set pairs. pair_key (fst pq) (snd pq) \<notin> Inr ` all_matches st \<Longrightarrow>
   count_pairs st pairs dr = Inr dr"
proof (induction pairs)
  case Nil
  then show ?case by simp
next
  case (Cons pq pairs)
  obtain p q where pq: "pq = (p, q)" by (cases pq)
  from Cons.prems have "pair_entry (p, q) \<notin> all_matches st"
    by (simp add: pq pair_key_eq image_iff)
  then have "count_pair st p q dr = Inr dr"
    by (rule count_pair_unindexed [OF pair_key_eq])
  with Cons show ?case by (simp add: pq)
qed

lemma count_pair_returns: "\<exists>dr'. count_pair st p q dr = Inr dr'"
  by (simp add: count_pair_def pair_key_eq)

lemma count_pairs_returns: "\<exists>dr'. count_pairs st pairs dr = Inr dr'"
proof (induction pairs arbitrary: dr)
  case Nil
  then show ?case by simp
next
  case (Cons pq pairs)
  obtain p q where pq: "pq = (p, q)" by (cases pq)
  from count_pair_returns [of st p q dr] obtain dr1 where "count_pair st p q dr = Inr dr1" ..
  with Cons [of dr1] show ?case by (simp add: pq)
qed

lemma count_selection_returns: "\<exists>dr. count_selection st d = Inr dr"
  by (cases d)
    (simp_all add: count_selection_def count_remaining_pairs count_drafted_pairs
      count_pairs_returns)

lemma get_draft_result_returns:
  "draft g packs = Inr (d, g') \<Longrightarrow> \<exists>dr. get_draft_result draft st g packs = Inr (dr, g')"
  using count_selection_returns [of st d] by (auto simp: get_draft_result_def)

lemma four_counts:
  "count_pair four_index pack_W_bird pack_WU_bird dr = Inr (dr\<lparr>strong := strong dr + 1\<rparr>)"
  "count_pair four_index pack_W_bird pack_W_kin dr = Inr (dr\<lparr>medium := medium dr + 1\<rparr>)"
  "count_pair four_index pack_W_bird pack_UG_frog dr
     = Inr (dr\<lparr>unplayable := unplayable dr + 1\<rparr>)"
  "count_pair four_index pack_WU_bird pack_W_kin dr = Inr (dr\<lparr>weak := weak dr + 1\<rparr>)"
  "count_pair four_index pack_WU_bird pack_UG_frog dr = Inr (dr\<lparr>weak := weak dr + 1\<rparr>)"
  "count_pair four_index pack_W_kin pack_UG_frog dr
     = Inr (dr\<lparr>unplayable := unplayable dr + 1\<rparr>)"
  by (simp_all add: count_pair_def four_keys four_index_def doubleton_eq_iff)

lemma missing_keys:
  "pair_key pack_R_mouse pack_B_rat = Inr {''R Roughshod'', ''B Daggerfang''}"
  "pair_key pack_R_mouse pack_G_squirrel = Inr {''R Roughshod'', ''G Treeguard''}"
  "pair_key pack_B_rat pack_G_squirrel = Inr {''B Daggerfang'', ''G Treeguard''}"
  by (simp_all add: pair_key_eq pair_entry_def pack_labels)

lemma missing_from_four_index:
  "{''R Roughshod'', ''B Daggerfang''} \<notin> all_matches four_index"
  "{''R Roughshod'', ''G Treeguard''} \<notin> all_matches four_index"
  "{''B Daggerfang'', ''G Treeguard''} \<notin> all_matches four_index"
  by (simp_all add: all_matches_def four_index_def doubleton_eq_iff)

text \<open>
  C6. The pairs that the evaluator counts for a selection are, for a tuple of an anchor
  and the rest, the pairs of the anchor with each member of the rest and no pair among the
  rest; for a list of \<open>k\<close> packs, the pairs at all positions \<open>i < j\<close>, which are
  \<open>k choose 2\<close> pairs: the counting loops are the loop body run over exactly this list
  of pairs.
\<close>

theorem get_draft_result_pairs:
  "count_selection st (PyTuple a rest) = count_pairs st (map (Pair a) rest) DraftResult_init
   \<and> count_selection st (PyList xs) = count_pairs st (all_pairs xs) DraftResult_init
   \<and> length (all_pairs xs) = length xs choose 2
   \<and> get_draft_result draft st g packs =
       bind_err (draft g packs) (\<lambda>(drafted_packs, g').
       bind_err (count_pairs st
                  (case drafted_packs of
                     PyTuple pack_one remaining_packs \<Rightarrow> map (Pair pack_one) remaining_packs
                   | PyList chosen \<Rightarrow> all_pairs chosen)
                  DraftResult_init)
         (\<lambda>draft_result. Inr (draft_result, g')))"
proof -
  have "count_selection st d =
      count_pairs st (case d of PyTuple pack_one remaining_packs \<Rightarrow> map (Pair pack_one) remaining_packs
                   | PyList chosen \<Rightarrow> all_pairs chosen) DraftResult_init" for d
    by (cases d) (simp_all add: count_selection_def count_remaining_pairs count_drafted_pairs)
  then have "get_draft_result draft st g packs =
       bind_err (draft g packs) (\<lambda>(drafted_packs, g').
       bind_err (count_pairs st
                  (case drafted_packs of
                     PyTuple pack_one remaining_packs \<Rightarrow> map (Pair pack_one) remaining_packs
                   | PyList chosen \<Rightarrow> all_pairs chosen)
                  DraftResult_init)
         (\<lambda>draft_result. Inr (draft_result, g')))"
    by (simp add: get_draft_result_def)
  then show ?thesis
    by (simp add: count_selection_def count_remaining_pairs count_drafted_pairs length_all_pairs)
qed

theorem get_draft_result_pairs_witness:
  "all_pairs [pack_W_bird, pack_WU_bird, pack_W_kin]
     = [(pack_W_bird, pack_WU_bird), (pack_W_bird, pack_W_kin), (pack_WU_bird, pack_W_kin)]
   \<and> count_selection four_index (PyList [pack_W_bird, pack_WU_bird, pack_W_kin])
       = Inr \<lparr>strong = 1, medium = 1, weak = 1, unplayable = 0\<rparr>
   \<and> count_selection four_index (PyTuple pack_W_bird [pack_WU_bird, pack_W_kin])
       = Inr \<lparr>strong = 1, medium = 1, weak = 0, unplayable = 0\<rparr>
   \<and> length (all_pairs [pack_W_bird, pack_WU_bird, pack_W_kin]) = 3
   \<and> get_draft_result (fixed_draft (PyTuple pack_W_bird [pack_WU_bird, pack_W_kin])) four_index 0
       four_packs
       = Inr (\<lparr>strong = 1, medium = 1, weak = 0, unplayable = 0\<rparr>, 1)"
proof -
  have a: "all_pairs [pack_W_bird, pack_WU_bird, pack_W_kin]
     = [(pack_W_bird, pack_WU_bird), (pack_W_bird, pack_W_kin), (pack_WU_bird, pack_W_kin)]"
    by (simp add: all_pairs_Cons all_pairs_Nil)
  have b: "(3::nat) choose 2 = 3" by (simp add: choose_two)
  from get_draft_result_pairs [of four_index pack_W_bird "[pack_WU_bird, pack_W_kin]"
      "[pack_W_bird, pack_WU_bird, pack_W_kin]"
      "fixed_draft (PyTuple pack_W_bird [pack_WU_bird, pack_W_kin])" 0 four_packs]
  show ?thesis unfolding a by (simp add: four_counts DraftResult_init_def b fixed_draft_def)
qed

text \<open>
  C9 (as amended). The lookup of a pair raises nothing. A pair whose key is in none of
  the four sets of the match index is skipped: \<open>count_pair\<close> returns the counts of the
  trial unchanged. A drafted tuple or a drafted list all of whose pairs are missing from
  the index gives the result with four zeros, \<open>get_draft_result\<close> returns it, and \<open>test\<close>
  counts such a trial in \<open>total_runs\<close> and in no other counter.
\<close>

theorem count_pair_skips_unindexed:
  "(\<exists>pair. pair_key pack_one pack_two = Inr pair)
   \<and> (pair_key pack_one pack_two = Inr pair \<and> pair \<notin> all_matches st \<longrightarrow>
        count_pair st pack_one pack_two dr = Inr dr)
   \<and> ((\<forall>p \<in> set rest. pair_key a p \<notin> Inr ` all_matches st) \<longrightarrow>
        count_selection st (PyTuple a rest) = Inr DraftResult_init)
   \<and> ((\<forall>pq \<in> set (all_pairs xs). pair_key (fst pq) (snd pq) \<notin> Inr ` all_matches st) \<longrightarrow>
        count_selection st (PyList xs) = Inr DraftResult_init)
   \<and> (draft g packs = Inr (d, g') \<and> count_selection st d = Inr DraftResult_init \<longrightarrow>
        get_draft_result draft st g packs = Inr (DraftResult_init, g'))
   \<and> tally results DraftResult_init = results\<lparr>total_runs := total_runs results + 1\<rparr>"
proof -
  have 1: "\<exists>pair. pair_key pack_one pack_two = Inr pair" by (simp add: pair_key_eq)
  have 2: "pair_key pack_one pack_two = Inr pair \<and> pair \<notin> all_matches st \<longrightarrow>
        count_pair st pack_one pack_two dr = Inr dr"
    by (simp add: count_pair_unindexed)
  have 3: "(\<forall>p \<in> set rest. pair_key a p \<notin> Inr ` all_matches st) \<longrightarrow>
        count_selection st (PyTuple a rest) = Inr DraftResult_init"
    using count_pairs_unindexed [of "map (Pair a) rest" st DraftResult_init]
    by (simp add: count_selection_def count_remaining_pairs)
  have 4: "(\<forall>pq \<in> set (all_pairs xs). pair_key (fst pq) (snd pq) \<notin> Inr ` all_matches st) \<longrightarrow>
        count_selection st (PyList xs) = Inr DraftResult_init"
    using count_pairs_unindexed [of "all_pairs xs" st DraftResult_init]
    by (simp add: count_selection_def count_drafted_pairs)
  have 5: "draft g packs = Inr (d, g') \<and> count_selection st d = Inr DraftResult_init \<longrightarrow>
        get_draft_result draft st g packs = Inr (DraftResult_init, g')"
    by (simp add: get_draft_result_def)
  have 6: "tally results DraftResult_init = results\<lparr>total_runs := total_runs results + 1\<rparr>"
    by (simp add: tally_def DraftResult_init_def)
  from 1 2 3 4 5 6 show ?thesis by (intro conjI)
qed

theorem count_pair_skips_unindexed_witness:
  "pair_key pack_R_mouse pack_B_rat = Inr {''R Roughshod'', ''B Daggerfang''}
   \<and> {''R Roughshod'', ''B Daggerfang''} \<notin> all_matches four_index
   \<and> count_pair four_index pack_R_mouse pack_B_rat
         \<lparr>strong = 1, medium = 0, weak = 2, unplayable = 0\<rparr>
       = Inr \<lparr>strong = 1, medium = 0, weak = 2, unplayable = 0\<rparr>
   \<and> count_selection four_index (PyTuple pack_R_mouse [pack_B_rat, pack_G_squirrel])
       = Inr DraftResult_init
   \<and> count_selection four_index (PyList [pack_R_mouse, pack_B_rat, pack_G_squirrel])
       = Inr DraftResult_init"
proof -
  have a: "all_pairs [pack_R_mouse, pack_B_rat, pack_G_squirrel]
     = [(pack_R_mouse, pack_B_rat), (pack_R_mouse, pack_G_squirrel),
        (pack_B_rat, pack_G_squirrel)]"
    by (simp add: all_pairs_Cons all_pairs_Nil)
  have h1: "\<forall>p \<in> set [pack_B_rat, pack_G_squirrel].
      pair_key pack_R_mouse p \<notin> Inr ` all_matches four_index"
    by (simp add: missing_keys missing_from_four_index inj_image_mem_iff)
  have h2: "\<forall>pq \<in> set (all_pairs [pack_R_mouse, pack_B_rat, pack_G_squirrel]).
      pair_key (fst pq) (snd pq) \<notin> Inr ` all_matches four_index"
    unfolding a by (simp add: missing_keys missing_from_four_index inj_image_mem_iff)
  from count_pair_skips_unindexed [where pack_one = pack_R_mouse and pack_two = pack_B_rat
      and pair = "{''R Roughshod'', ''B Daggerfang''}" and st = four_index
      and dr = "\<lparr>strong = 1, medium = 0, weak = 2, unplayable = 0\<rparr>"
      and rest = "[pack_B_rat, pack_G_squirrel]" and a = pack_R_mouse
      and xs = "[pack_R_mouse, pack_B_rat, pack_G_squirrel]"
      and draft = "fixed_draft (PyList [pack_R_mouse, pack_B_rat, pack_G_squirrel])"
      and g = 0 and packs = six_packs
      and d = "PyList [pack_R_mouse, pack_B_rat, pack_G_squirrel]" and g' = 1
      and results = TotalResults_init] h1 h2
  show ?thesis by (simp add: missing_keys missing_from_four_index)
qed

text \<open>
  The pair of \<open>pack_R_mouse\<close> and \<open>pack_B_rat\<close> is looked up in an index that does not
  hold it; \<open>get_draft_result\<close> returns the result with four zeros and raises nothing.
\<close>

theorem unindexed_pair_counterexample:
  "pair_key pack_R_mouse pack_B_rat = Inr {''R Roughshod'', ''B Daggerfang''}
   \<and> {''R Roughshod'', ''B Daggerfang''} \<notin> STRONG_MATCHES four_index \<union> MEDIUM_MATCHES four_index
        \<union> WEAK_MATCHES four_index \<union> UNPLAYABLE_MATCHES four_index
   \<and> get_draft_result (fixed_draft (PyList [pack_R_mouse, pack_B_rat])) four_index 0 six_packs
       = Inr (\<lparr>strong = 0, medium = 0, weak = 0, unplayable = 0\<rparr>, 1)"
  using missing_from_four_index(1)
  by (simp add: missing_keys all_matches_def get_draft_result_def fixed_draft_def
      count_selection_def count_pair_def DraftResult_init_def)

section \<open>The operations that label packs\<close>

lemma initialize_returns: "\<exists>st'. initialize packs st = Inr st'"
  using record_all_entries
    [of packs "st\<lparr>SYNERGISTIC_TYPE_PAIRS := add_synergies packs (SYNERGISTIC_TYPE_PAIRS st)\<rparr>"]
  by (auto simp: initialize_def)

lemma fieldnames_loop_returns: "\<exists>r. fieldnames_loop packs fieldnames pairs = Inr r"
  by (induction packs arbitrary: fieldnames pairs) (simp_all add: pack_str_label)

lemma row_loop_returns: "\<exists>r. row_loop pack_one remaining st row = Inr r"
proof (induction remaining arbitrary: st row)
  case Nil
  then show ?case by simp
next
  case (Cons pack_two remaining)
  from record_pair_entries [of pack_one pack_two st] obtain st1 where
    "record_pair pack_one pack_two st = Inr st1" by blast
  with Cons show ?case by (simp add: Let_def)
qed

lemma rows_loop_returns: "\<exists>r. rows_loop number packs st rows = Inr r"
proof (induction packs arbitrary: number st rows)
  case Nil
  then show ?case by simp
next
  case (Cons pack_one remaining)
  from row_loop_returns
    [of pack_one remaining st "display_label pack_one # replicate number []"]
  obtain st1 row where
    "row_loop pack_one remaining st (display_label pack_one # replicate number [])
       = Inr (st1, row)"
    by auto
  with Cons show ?case by (simp add: pack_str_label)
qed

lemma write_to_file_returns: "\<exists>out. write_to_file packs st = Inr out"
proof -
  from fieldnames_loop_returns [of packs "[[]]" "SYNERGISTIC_TYPE_PAIRS st"]
  obtain fieldnames pairs where
    f: "fieldnames_loop packs [[]] (SYNERGISTIC_TYPE_PAIRS st) = Inr (fieldnames, pairs)"
    by auto
  from rows_loop_returns [of 1 packs "st\<lparr>SYNERGISTIC_TYPE_PAIRS := pairs\<rparr>" "[]"]
  obtain st1 rows where
    "rows_loop 1 packs (st\<lparr>SYNERGISTIC_TYPE_PAIRS := pairs\<rparr>) [] = Inr (st1, rows)"
    by auto
  with f show ?thesis by (simp add: write_to_file_def)
qed

text \<open>
  C10 (as amended). \<open>join\<close> raises \<open>TypeError\<close> on a member of \<open>Colour\<close>, but no pack
  holds one: \<open>colours\<close> holds the strings of the JSON file. For every pack \<open>str(pack)\<close>
  raises nothing and returns the colour strings in the stored order, a space and the name.
  So the operations that label packs do not fail on a label: \<open>initialize\<close>, the counting
  of \<open>get_draft_result\<close> (which returns whenever the draft does) and \<open>write_to_file\<close>
  return for every collection and every module state.
\<close>

theorem pack_str_returns_label:
  "pack_str p = Inr (concat (colours p) @ '' '' @ name p)
   \<and> str_join sep (map PyStr xs @ PyColour c # items) = Inl TypeError
   \<and> (\<exists>st'. initialize packs st = Inr st')
   \<and> (\<exists>draft_result. count_selection st d = Inr draft_result)
   \<and> (draft g packs = Inr (d, g') \<longrightarrow>
        (\<exists>draft_result. get_draft_result draft st g packs = Inr (draft_result, g')))
   \<and> (\<exists>out. write_to_file packs st = Inr out)"
  using pack_str_eq [of p] str_join_Colour [of sep xs c items] initialize_returns [of packs st]
    count_selection_returns [of st d] get_draft_result_returns [of draft g packs d g' st]
    write_to_file_returns [of packs st]
  by (intro conjI impI) assumption+

lemma write_to_file_two:
  "write_to_file [pack_W_bird, pack_WU_bird] module_state
     = Inr (module_state\<lparr>STRONG_MATCHES := {{''W Lifecreed'', ''WU Birds''}}\<rparr>,
            [[[], ''W Lifecreed'', ''WU Birds''],
             [''W Lifecreed'', [], ''Strong''],
             [''WU Birds'', [], []]])"
proof -
  have v: "pair_playability pack_W_bird pack_WU_bird {} = STRONG"
    by (auto simp: pair_playability_def matching_colours_def matching_types_def
        synergistic_types_def pack_defs)
  have l: "pack_str pack_W_bird = Inr ''W Lifecreed''" "pack_str pack_WU_bird = Inr ''WU Birds''"
    by (simp_all add: pack_str_label pack_labels)
  have f: "fieldnames_loop [pack_W_bird, pack_WU_bird] [[]] (SYNERGISTIC_TYPE_PAIRS module_state)
      = Inr ([[], ''W Lifecreed'', ''WU Birds''], {})"
    by (simp add: l module_state_def) (simp add: pack_defs)
  show ?thesis
    unfolding write_to_file_def f
    by (simp add: module_state_def l record_pair_eq [OF four_keys(1)] v Let_def)
qed

theorem pack_str_returns_label_witness:
  "pack_str pack_WU_bird = Inr ''WU Birds''
   \<and> initialize four_packs module_state = Inr four_index
   \<and> count_selection four_index (PyList [pack_W_bird, pack_WU_bird, pack_W_kin])
       = Inr \<lparr>strong = 1, medium = 1, weak = 1, unplayable = 0\<rparr>
   \<and> (\<exists>draft_result.
         get_draft_result (fixed_draft (PyList [pack_W_bird, pack_WU_bird, pack_W_kin]))
           four_index 0 four_packs = Inr (draft_result, 1))
   \<and> (\<exists>out. write_to_file [pack_W_bird, pack_WU_bird] module_state = Inr out)"
proof -
  have f: "fixed_draft (PyList [pack_W_bird, pack_WU_bird, pack_W_kin]) 0 four_packs
      = Inr (PyList [pack_W_bird, pack_WU_bird, pack_W_kin], 1)"
    by (simp add: fixed_draft_def)
  have c: "count_selection four_index (PyList [pack_W_bird, pack_WU_bird, pack_W_kin])
       = Inr \<lparr>strong = 1, medium = 1, weak = 1, unplayable = 0\<rparr>"
    by (simp add: count_selection_def four_counts DraftResult_init_def)
  from pack_str_returns_label [where p = pack_WU_bird
      and sep = "[]" and xs = "[''W'']" and c = BLUE and items = "[]"
      and draft = "fixed_draft (PyList [pack_W_bird, pack_WU_bird, pack_W_kin])"
      and g = 0 and packs = four_packs and d = "PyList [pack_W_bird, pack_WU_bird, pack_W_kin]"
      and g' = 1 and st = four_index]
    pack_str_returns_label [where p = pack_WU_bird
      and sep = "[]" and xs = "[''W'']" and c = BLUE and items = "[]"
      and draft = "fixed_draft (PyList [pack_W_bird, pack_WU_bird, pack_W_kin])"
      and g = 0 and packs = "[pack_W_bird, pack_WU_bird]"
      and d = "PyList [pack_W_bird, pack_WU_bird, pack_W_kin]"
      and g' = 1 and st = module_state]
    f c
  show ?thesis by (simp add: initialize_four pack_defs)
qed

text \<open>
  A pack with one colour has the label \<open>W Lifecreed\<close>; \<open>initialize\<close>, the counting and
  \<open>write_to_file\<close> return on packs that have colours.
\<close>

theorem pack_str_TypeError_counterexample:
  "colours pack_W_bird \<noteq> []
   \<and> pack_str pack_W_bird = Inr ''W Lifecreed''
   \<and> initialize four_packs module_state = Inr four_index
   \<and> count_selection four_index (PyTuple pack_W_bird [pack_WU_bird])
       = Inr \<lparr>strong = 1, medium = 0, weak = 0, unplayable = 0\<rparr>
   \<and> write_to_file [pack_W_bird, pack_WU_bird] module_state
       = Inr (module_state\<lparr>STRONG_MATCHES := {{''W Lifecreed'', ''WU Birds''}}\<rparr>,
              [[[], ''W Lifecreed'', ''WU Birds''],
               [''W Lifecreed'', [], ''Strong''],
               [''WU Birds'', [], []]])"
  by (simp add: pack_str_label pack_labels initialize_four write_to_file_two
      count_selection_def four_counts DraftResult_init_def)
    (simp add: pack_defs)

section \<open>The random module and the strategies\<close>

lemma positions_ok_nth:
  assumes "positions_ok (length xs) k ps"
  shows "length (map ((!) xs) ps) = k" and "set (map ((!) xs) ps) \<subseteq> set xs"
    and "distinct xs \<Longrightarrow> distinct (map ((!) xs) ps)"
proof -
  from assms have l: "length ps = k" and d: "distinct ps" and b: "\<forall>i \<in> set ps. i < length xs"
    by (simp_all add: positions_ok_def list_all_iff)
  show "length (map ((!) xs) ps) = k" using l by simp
  show "set (map ((!) xs) ps) \<subseteq> set xs" using b by auto
  show "distinct (map ((!) xs) ps)" if "distinct xs"
    using that d b by (auto simp: distinct_map inj_on_def nth_eq_iff_index_eq)
qed

lemma sample_Inr:
  assumes "sample_contract smp" and "smp g xs k = Inr (ys, g')"
  shows "\<exists>ps. positions_ok (length xs) k ps \<and> ys = map ((!) xs) ps"
proof (cases "length xs < k")
  case True
  with assms show ?thesis by (simp add: sample_contract_def)
next
  case False
  then have "k \<le> length xs" by simp
  with assms(1) obtain ps g2 where "positions_ok (length xs) k ps"
    and "smp g xs k = Inr (map ((!) xs) ps, g2)"
    unfolding sample_contract_def by blast
  with assms(2) show ?thesis by auto
qed

lemma sample_returns:
  assumes "sample_contract smp" and "k \<le> length xs"
  shows "\<exists>ys g'. smp g xs k = Inr (ys, g')"
  using assms unfolding sample_contract_def by blast

lemma choice_Inr:
  assumes "choice_contract chc" and "chc g xs = Inr (y, g')"
  shows "y \<in> set xs"
proof (cases "xs = []")
  case True
  with assms show ?thesis by (simp add: choice_contract_def)
next
  case False
  with assms(1) obtain i g2 where "i < length xs" and "chc g xs = Inr (xs ! i, g2)"
    unfolding choice_contract_def by blast
  with assms(2) show ?thesis by auto
qed

lemma choice_returns:
  assumes "choice_contract chc" and "xs \<noteq> []"
  shows "\<exists>y g'. chc g xs = Inr (y, g')"
  using assms unfolding choice_contract_def by blast

lemma draft_three_twice_Inr:
  assumes "DrawThreeTwiceStrategy_draft smp chc g packs = Inr (d, g')"
  shows "\<exists>first_three g1 first_pick g2 second_three.
           smp g packs 3 = Inr (first_three, g1)
         \<and> chc g1 first_three = Inr (first_pick, g2)
         \<and> smp g2 (filter (\<lambda>pack. pack \<notin> set first_three) packs) 3 = Inr (second_three, g')
         \<and> d = PyTuple first_pick second_three"
  using assms unfolding DrawThreeTwiceStrategy_draft_def
  by (auto simp: bind_err_def Let_def split: sum.splits prod.splits)

lemma counter_sample_contract: "sample_contract counter_sample"
  unfolding sample_contract_def
proof (intro allI conjI impI)
  fix g :: nat and population :: "Pack list" and k
  assume "length population < k"
  then show "counter_sample g population k = Inl ValueError"
    by (simp add: counter_sample_def)
next
  fix g :: nat and population :: "Pack list" and k
  assume k: "k \<le> length population"
  define off where "off = g mod (length population - k + 1)"
  have o: "off + k \<le> length population"
  proof -
    have "off < length population - k + 1" unfolding off_def by simp
    with k show ?thesis by linarith
  qed
  have "take k (drop off population) = map ((!) population) [off..<off + k]"
    using o by (intro nth_equalityI) simp_all
  moreover have "positions_ok (length population) k [off..<off + k]"
    using o by (simp add: positions_ok_def list_all_iff)
  ultimately show "\<exists>ps g'. positions_ok (length population) k ps
             \<and> counter_sample g population k = Inr (map ((!) population) ps, g')"
    using k by (auto simp: counter_sample_def off_def)
qed

lemma counter_choice_contract: "choice_contract counter_choice"
  unfolding choice_contract_def
  by (auto simp: counter_choice_def intro!: exI [of _ "_ mod _"])

lemma draft_three_twice_returns:
  assumes "sample_contract smp" and "choice_contract chc"
    and h: "distinct packs \<and> 6 \<le> length packs"
  shows "\<exists>anchor second_three g'.
           DrawThreeTwiceStrategy_draft smp chc g packs = Inr (PyTuple anchor second_three, g')"
proof -
  from h have "3 \<le> length packs" by simp
  from sample_returns [OF assms(1) this] obtain first_three g1 where
    s1: "smp g packs 3 = Inr (first_three, g1)" by blast
  let ?rest = "filter (\<lambda>pack. pack \<notin> set first_three) packs"
  from sample_Inr [OF assms(1) s1] obtain ps1 where
    p1: "positions_ok (length packs) 3 ps1" and f: "first_three = map ((!) packs) ps1"
    by blast
  have l: "length first_three = 3" unfolding f by (rule positions_ok_nth(1) [OF p1])
  then have "first_three \<noteq> []" by auto
  from choice_returns [OF assms(2) this] obtain first_pick g2 where
    c: "chc g1 first_three = Inr (first_pick, g2)" by blast
  have "{x. x \<notin> set first_three} \<inter> set packs = set packs - set first_three"
    by auto
  then have "length ?rest = card (set packs - set first_three)"
    using h by (simp add: distinct_length_filter)
  also have "\<dots> \<ge> card (set packs) - card (set first_three)"
    by (rule diff_card_le_card_Diff) simp
  finally have "length ?rest \<ge> length packs - card (set first_three)"
    using h by (simp add: distinct_card)
  moreover have "card (set first_three) \<le> 3" using card_length [of first_three] l by simp
  ultimately have "3 \<le> length ?rest" using h by linarith
  from sample_returns [OF assms(1) this] obtain second_three g3 where
    s2: "smp g2 ?rest 3 = Inr (second_three, g3)" by blast
  show ?thesis
    using s1 c s2 by (simp add: DrawThreeTwiceStrategy_draft_def Let_def)
qed

lemma draw_n_returns:
  assumes "sample_contract smp"
  shows "3 \<le> length packs \<Longrightarrow> \<exists>d g'. DrawThreeStrategy_draft smp g packs = Inr (d, g')"
    and "4 \<le> length packs \<Longrightarrow> \<exists>d g'. DrawFourStrategy_draft smp g packs = Inr (d, g')"
    and "5 \<le> length packs \<Longrightarrow> \<exists>d g'. DrawFiveStrategy_draft smp g packs = Inr (d, g')"
    and "6 \<le> length packs \<Longrightarrow> \<exists>d g'. DrawSixStrategy_draft smp g packs = Inr (d, g')"
proof -
  show "\<exists>d g'. DrawThreeStrategy_draft smp g packs = Inr (d, g')" if "3 \<le> length packs"
    using sample_returns [OF assms that, of g] by (auto simp: DrawThreeStrategy_draft_def)
  show "\<exists>d g'. DrawFourStrategy_draft smp g packs = Inr (d, g')" if "4 \<le> length packs"
    using sample_returns [OF assms that, of g] by (auto simp: DrawFourStrategy_draft_def)
  show "\<exists>d g'. DrawFiveStrategy_draft smp g packs = Inr (d, g')" if "5 \<le> length packs"
    using sample_returns [OF assms that, of g] by (auto simp: DrawFiveStrategy_draft_def)
  show "\<exists>d g'. DrawSixStrategy_draft smp g packs = Inr (d, g')" if "6 \<le> length packs"
    using sample_returns [OF assms that, of g] by (auto simp: DrawSixStrategy_draft_def)
qed

section \<open>The evaluator\<close>

lemma tally_total_runs: "total_runs (tally r dr) = total_runs r + 1"
  by (simp add: tally_def Let_def)

lemma tally_ordered: "counters_ordered r \<Longrightarrow> counters_ordered (tally r dr)"
  by (auto simp: tally_def Let_def counters_ordered_def)

lemma test_loop_counts:
  "test_loop n draft st packs g r = Inr (r', g') \<Longrightarrow>
     total_runs r' = total_runs r + int n \<and> (counters_ordered r \<longrightarrow> counters_ordered r')"
proof (induction n arbitrary: g r)
  case 0
  then show ?case by simp
next
  case (Suc n)
  then obtain dr g1 where
    d: "get_draft_result draft st g packs = Inr (dr, g1)" and
    l: "test_loop n draft st packs g1 (tally r dr) = Inr (r', g')"
    by (cases "get_draft_result draft st g packs") auto
  from Suc.IH [OF l] show ?case
    by (simp add: tally_total_runs tally_ordered)
qed

lemma test_loop_returns:
  "\<forall>g. \<exists>d g'. draft g packs = Inr (d, g') \<Longrightarrow>
   \<exists>r' g'. test_loop n draft st packs g r = Inr (r', g')"
proof (induction n arbitrary: g r)
  case 0
  then show ?case by simp
next
  case (Suc n)
  from Suc.prems obtain d g1 where "draft g packs = Inr (d, g1)" by blast
  then obtain dr where "get_draft_result draft st g packs = Inr (dr, g1)"
    using get_draft_result_returns [of draft g packs d g1 st] by blast
  with Suc.IH [OF Suc.prems, of g1 "tally r dr"] show ?case by simp
qed

lemma counters_ordered_init: "counters_ordered TotalResults_init"
  by (simp add: counters_ordered_def TotalResults_init_def)

lemma test_reports:
  assumes "\<forall>g. \<exists>d g'. draft g packs = Inr (d, g')"
  shows "\<exists>results g'. test draft st packs g TotalResults_init = Inr (results, g')
           \<and> total_runs results = 100000 \<and> counters_ordered results"
proof -
  from assms obtain results g' where
    r: "test_loop 100000 draft st packs g TotalResults_init = Inr (results, g')"
    using test_loop_returns [of draft packs 100000 st g TotalResults_init] by blast
  from test_loop_counts [OF r] counters_ordered_init
  have "total_runs results = 100000 \<and> counters_ordered results"
    by (simp add: TotalResults_init_def)
  with r show ?thesis by (auto simp: test_def)
qed

lemma draw_three_four_packs:
  "get_draft_result (DrawThreeStrategy_draft counter_sample) four_index 0 four_packs
     = Inr (\<lparr>strong = 1, medium = 1, weak = 1, unplayable = 0\<rparr>, 1)"
  "get_draft_result (DrawThreeStrategy_draft counter_sample) four_index (Suc 0) four_packs
     = Inr (\<lparr>strong = 0, medium = 0, weak = 2, unplayable = 1\<rparr>, 2)"
  by (simp_all add: get_draft_result_def DrawThreeStrategy_draft_def counter_sample_def
      four_packs_def count_selection_def four_counts DraftResult_init_def)

lemma test_loop_two_four_packs:
  "test_loop 2 (DrawThreeStrategy_draft counter_sample) four_index four_packs 0 TotalResults_init
     = Inr (\<lparr>total_runs = 2, strong_or_better = 1, medium_or_better = 1, weak_or_better = 2,
              unplayable_or_better = 2\<rparr>, 2)"
  by (simp add: numeral_2_eq_2 draw_three_four_packs tally_def TotalResults_init_def)

text \<open>
  C5. When \<open>test\<close>, started on the results of a new strategy object, returns, it reports
  \<open>total_runs = 100000\<close>, the number of its passes, and
  \<open>strong_or_better \<le> medium_or_better \<le> weak_or_better \<le> unplayable_or_better \<le> total_runs\<close>;
  the same holds of the loop for every number \<open>T\<close> of passes, and started on other results
  the loop adds \<open>T\<close> to \<open>total_runs\<close> and keeps the order of the counters. \<open>test\<close> returns,
  with this report, whenever no call of \<open>draft\<close> raises: under the contract of the random
  module, for the strategies that draw three, four, five or six packs on a collection of
  at least as many packs, and for \<open>DrawThreeTwiceStrategy\<close> on at least six pairwise
  different packs.
\<close>

theorem test_counters:
  "(test_loop T draft st packs g start = Inr (results, g') \<longrightarrow>
      total_runs results = total_runs start + int T
      \<and> (counters_ordered start \<longrightarrow> counters_ordered results))
   \<and> (test_loop T draft st packs g TotalResults_init = Inr (results, g') \<longrightarrow>
      total_runs results = int T \<and> counters_ordered results)
   \<and> test draft st packs g = test_loop 100000 draft st packs g
   \<and> (test draft st packs g TotalResults_init = Inr (results, g') \<longrightarrow>
      total_runs results = 100000 \<and> counters_ordered results)
   \<and> ((\<forall>g. \<exists>d g'. draft g packs = Inr (d, g')) \<longrightarrow>
      (\<exists>results g'. test draft st packs g TotalResults_init = Inr (results, g')
         \<and> total_runs results = 100000 \<and> counters_ordered results))
   \<and> (sample_contract smp \<and> 3 \<le> length packs \<longrightarrow>
      (\<exists>results g'. test (DrawThreeStrategy_draft smp) st packs g TotalResults_init
           = Inr (results, g')
         \<and> total_runs results = 100000 \<and> counters_ordered results))
   \<and> (sample_contract smp \<and> 4 \<le> length packs \<longrightarrow>
      (\<exists>results g'. test (DrawFourStrategy_draft smp) st packs g TotalResults_init
           = Inr (results, g')
         \<and> total_runs results = 100000 \<and> counters_ordered results))
   \<and> (sample_contract smp \<and> 5 \<le> length packs \<longrightarrow>
      (\<exists>results g'. test (DrawFiveStrategy_draft smp) st packs g TotalResults_init
           = Inr (results, g')
         \<and> total_runs results = 100000 \<and> counters_ordered results))
   \<and> (sample_contract smp \<and> 6 \<le> length packs \<longrightarrow>
      (\<exists>results g'. test (DrawSixStrategy_draft smp) st packs g TotalResults_init
           = Inr (results, g')
         \<and> total_runs results = 100000 \<and> counters_ordered results))
   \<and> (sample_contract smp \<and> choice_contract chc \<and> distinct packs \<and> 6 \<le> length packs \<longrightarrow>
      (\<exists>results g'. test (DrawThreeTwiceStrategy_draft smp chc) st packs g TotalResults_init
           = Inr (results, g')
         \<and> total_runs results = 100000 \<and> counters_ordered results))"
proof -
  have a: "total_runs results = int T \<and> counters_ordered results"
    if "test_loop T draft st packs g TotalResults_init = Inr (results, g')" for T results g'
    using test_loop_counts [OF that] counters_ordered_init
    by (simp add: TotalResults_init_def)
  have b: "test draft st packs g = test_loop 100000 draft st packs g"
    by (rule ext) (simp add: test_def)
  have 1: "test_loop T draft st packs g start = Inr (results, g') \<longrightarrow>
      total_runs results = total_runs start + int T
      \<and> (counters_ordered start \<longrightarrow> counters_ordered results)"
    using test_loop_counts [of T draft st packs g start results g'] by blast
  have 2: "test_loop T draft st packs g TotalResults_init = Inr (results, g') \<longrightarrow>
      total_runs results = int T \<and> counters_ordered results"
    using a [of T] by blast
  have 4: "test draft st packs g TotalResults_init = Inr (results, g') \<longrightarrow>
      total_runs results = 100000 \<and> counters_ordered results"
    unfolding b using a [of 100000 results g'] by simp
  have 5: "(\<forall>g. \<exists>d g'. draft g packs = Inr (d, g')) \<longrightarrow>
      (\<exists>results g'. test draft st packs g TotalResults_init = Inr (results, g')
         \<and> total_runs results = 100000 \<and> counters_ordered results)"
    using test_reports [of draft packs st g] by blast
  have 6: "sample_contract smp \<and> 3 \<le> length packs \<longrightarrow>
      (\<exists>results g'. test (DrawThreeStrategy_draft smp) st packs g TotalResults_init
           = Inr (results, g')
         \<and> total_runs results = 100000 \<and> counters_ordered results)"
  proof
    assume h: "sample_contract smp \<and> 3 \<le> length packs"
    then have "\<forall>g. \<exists>d g'. DrawThreeStrategy_draft smp g packs = Inr (d, g')"
      using draw_n_returns(1) [of smp packs] by blast
    then show "\<exists>results g'. test (DrawThreeStrategy_draft smp) st packs g TotalResults_init
           = Inr (results, g')
         \<and> total_runs results = 100000 \<and> counters_ordered results"
      by (rule test_reports)
  qed
  have 7: "sample_contract smp \<and> 4 \<le> length packs \<longrightarrow>
      (\<exists>results g'. test (DrawFourStrategy_draft smp) st packs g TotalResults_init
           = Inr (results, g')
         \<and> total_runs results = 100000 \<and> counters_ordered results)"
  proof
    assume h: "sample_contract smp \<and> 4 \<le> length packs"
    then have "\<forall>g. \<exists>d g'. DrawFourStrategy_draft smp g packs = Inr (d, g')"
      using draw_n_returns(2) [of smp packs] by blast
    then show "\<exists>results g'. test (DrawFourStrategy_draft smp) st packs g TotalResults_init
           = Inr (results, g')
         \<and> total_runs results = 100000 \<and> counters_ordered results"
      by (rule test_reports)
  qed
  have 8: "sample_contract smp \<and> 5 \<le> length packs \<longrightarrow>
      (\<exists>results g'. test (DrawFiveStrategy_draft smp) st packs g TotalResults_init
           = Inr (results, g')
         \<and> total_runs results = 100000 \<and> counters_ordered results)"
  proof
    assume h: "sample_contract smp \<and> 5 \<le> length packs"
    then have "\<forall>g. \<exists>d g'. DrawFiveStrategy_draft smp g packs = Inr (d, g')"
      using draw_n_returns(3) [of smp packs] by blast
    then show "\<exists>results g'. test (DrawFiveStrategy_draft smp) st packs g TotalResults_init
           = Inr (results, g')
         \<and> total_runs results = 100000 \<and> counters_ordered results"
      by (rule test_reports)
  qed
  have 9: "sample_contract smp \<and> 6 \<le> length packs \<longrightarrow>
      (\<exists>results g'. test (DrawSixStrategy_draft smp) st packs g TotalResults_init
           = Inr (results, g')
         \<and> total_runs results = 100000 \<and> counters_ordered results)"
  proof
    assume h: "sample_contract smp \<and> 6 \<le> length packs"
    then have "\<forall>g. \<exists>d g'. DrawSixStrategy_draft smp g packs = Inr (d, g')"
      using draw_n_returns(4) [of smp packs] by blast
    then show "\<exists>results g'. test (DrawSixStrategy_draft smp) st packs g TotalResults_init
           = Inr (results, g')
         \<and> total_runs results = 100000 \<and> counters_ordered results"
      by (rule test_reports)
  qed
  have 10: "sample_contract smp \<and> choice_contract chc \<and> distinct packs \<and> 6 \<le> length packs \<longrightarrow>
      (\<exists>results g'. test (DrawThreeTwiceStrategy_draft smp chc) st packs g TotalResults_init
           = Inr (results, g')
         \<and> total_runs results = 100000 \<and> counters_ordered results)"
  proof
    assume h: "sample_contract smp \<and> choice_contract chc \<and> distinct packs \<and> 6 \<le> length packs"
    then have "\<forall>g. \<exists>d g'. DrawThreeTwiceStrategy_draft smp chc g packs = Inr (d, g')"
      using draft_three_twice_returns [of smp chc packs] by blast
    then show "\<exists>results g'. test (DrawThreeTwiceStrategy_draft smp chc) st packs g
             TotalResults_init = Inr (results, g')
         \<and> total_runs results = 100000 \<and> counters_ordered results"
      by (rule test_reports)
  qed
  from 1 2 b 4 5 6 7 8 9 10 show ?thesis by (intro conjI)
qed

theorem test_counters_witness:
  "sample_contract counter_sample \<and> 3 \<le> length four_packs
   \<and> test_loop 2 (DrawThreeStrategy_draft counter_sample) four_index four_packs 0
         TotalResults_init
       = Inr (\<lparr>total_runs = 2, strong_or_better = 1, medium_or_better = 1, weak_or_better = 2,
                unplayable_or_better = 2\<rparr>, 2)
   \<and> counters_ordered \<lparr>total_runs = 2, strong_or_better = 1, medium_or_better = 1,
        weak_or_better = 2, unplayable_or_better = 2\<rparr>
   \<and> (\<exists>results g'.
         test (DrawThreeStrategy_draft counter_sample) four_index four_packs 0 TotalResults_init
           = Inr (results, g')
         \<and> total_runs results = 100000 \<and> counters_ordered results)"
proof -
  have l: "3 \<le> length four_packs" by (simp add: four_packs_def)
  note t = test_counters [where T = 2 and draft = "DrawThreeStrategy_draft counter_sample"
      and st = four_index and packs = four_packs and g = 0 and start = TotalResults_init
      and results = "\<lparr>total_runs = 2, strong_or_better = 1, medium_or_better = 1,
        weak_or_better = 2, unplayable_or_better = 2\<rparr>"
      and g' = 2 and smp = counter_sample and chc = counter_choice]
  from t [THEN conjunct2, THEN conjunct1] test_loop_two_four_packs
  have o: "counters_ordered \<lparr>total_runs = 2, strong_or_better = 1, medium_or_better = 1,
        weak_or_better = 2, unplayable_or_better = 2\<rparr>"
    by simp
  from t [THEN conjunct2, THEN conjunct2, THEN conjunct2, THEN conjunct2, THEN conjunct2,
      THEN conjunct1] counter_sample_contract l
  have r: "\<exists>results g'.
         test (DrawThreeStrategy_draft counter_sample) four_index four_packs 0 TotalResults_init
           = Inr (results, g')
         \<and> total_runs results = 100000 \<and> counters_ordered results"
    by simp
  from counter_sample_contract l test_loop_two_four_packs o r show ?thesis
    by (intro conjI)
qed

text \<open>
  C8. The three accessors of \<open>TotalResults\<close> read \<open>self.strong\<close> first, which no
  \<open>TotalResults\<close> object has: they raise \<open>AttributeError\<close> and return no quotient.
\<close>

theorem chance_accessors_raise:
  "strong_or_better_chance results = Inl AttributeError
   \<and> medium_or_better_chance results = Inl AttributeError
   \<and> weak_or_better_chance results = Inl AttributeError"
  by (simp add: strong_or_better_chance_def medium_or_better_chance_def
      weak_or_better_chance_def TotalResults_getattr_def)

section \<open>DrawThreeTwiceStrategy\<close>

lemma six_distinct: "distinct six_packs"
  by (simp add: six_packs_def pack_defs)

lemma six_sample1:
  "counter_sample 1 six_packs 3 = Inr ([pack_WU_bird, pack_R_mouse, pack_UG_frog], 2)"
  by (simp add: counter_sample_def six_packs_def)

lemma six_rest:
  "filter (\<lambda>pack. pack \<notin> set [pack_WU_bird, pack_R_mouse, pack_UG_frog]) six_packs
     = [pack_W_bird, pack_B_rat, pack_G_squirrel]"
  using six_distinct by (auto simp: six_packs_def)

lemma six_choice:
  "counter_choice 2 [pack_WU_bird, pack_R_mouse, pack_UG_frog] = Inr (pack_UG_frog, 3)"
  by (simp add: counter_choice_def)

lemma six_sample2:
  "counter_sample 3 [pack_W_bird, pack_B_rat, pack_G_squirrel] 3
     = Inr ([pack_W_bird, pack_B_rat, pack_G_squirrel], 4)"
  by (simp add: counter_sample_def)

lemma six_draft:
  "DrawThreeTwiceStrategy_draft counter_sample counter_choice 1 six_packs
       = Inr (PyTuple pack_UG_frog [pack_W_bird, pack_B_rat, pack_G_squirrel], 4)"
  unfolding DrawThreeTwiceStrategy_draft_def
  by (simp only: six_sample1 Let_def six_rest six_choice six_sample2 bind_err_simps prod.case)

lemma repeated_sample1:
  "counter_sample 0 repeated_packs 3 = Inr ([pack_W_bird, pack_WU_bird, pack_R_mouse], 1)"
  by (simp add: counter_sample_def repeated_packs_def)

lemma repeated_rest:
  "filter (\<lambda>pack. pack \<notin> set [pack_W_bird, pack_WU_bird, pack_R_mouse]) repeated_packs
     = [pack_UG_frog, pack_UG_frog, pack_G_squirrel]"
  using six_distinct by (auto simp: six_packs_def repeated_packs_def)

lemma repeated_choice:
  "counter_choice 1 [pack_W_bird, pack_WU_bird, pack_R_mouse] = Inr (pack_WU_bird, 2)"
  by (simp add: counter_choice_def)

lemma repeated_sample2:
  "counter_sample 2 [pack_UG_frog, pack_UG_frog, pack_G_squirrel] 3
     = Inr ([pack_UG_frog, pack_UG_frog, pack_G_squirrel], 3)"
  by (simp add: counter_sample_def)

lemma repeated_draft:
  "DrawThreeTwiceStrategy_draft counter_sample counter_choice 0 repeated_packs
       = Inr (PyTuple pack_WU_bird [pack_UG_frog, pack_UG_frog, pack_G_squirrel], 3)"
  unfolding DrawThreeTwiceStrategy_draft_def
  by (simp only: repeated_sample1 Let_def repeated_rest repeated_choice repeated_sample2
      bind_err_simps prod.case)

text \<open>
  C7 (as amended). Let \<open>sample\<close> and \<open>choice\<close> keep the contract of the random module.
  Every result of \<open>DrawThreeTwiceStrategy.draft\<close> is a tuple of an anchor and three packs:
  the anchor is one of the first three sampled packs; the three packs are drawn at three
  different positions of the packs that are not among the first three, so they share no
  pack with the first three and do not contain the anchor; they are three different packs
  when the packs of the collection are pairwise different. On six or more pairwise
  different packs the draft returns.
\<close>

theorem draw_three_twice_result:
  assumes "sample_contract smp" and "choice_contract chc"
  shows "(DrawThreeTwiceStrategy_draft smp chc g packs = Inr (d, g') \<longrightarrow>
           (\<exists>first_three g1 anchor second_three ps.
               smp g packs 3 = Inr (first_three, g1)
             \<and> d = PyTuple anchor second_three
             \<and> length first_three = 3 \<and> set first_three \<subseteq> set packs
             \<and> anchor \<in> set first_three
             \<and> length second_three = 3 \<and> set second_three \<subseteq> set packs
             \<and> set second_three \<inter> set first_three = {}
             \<and> anchor \<notin> set second_three
             \<and> positions_ok (length (filter (\<lambda>pack. pack \<notin> set first_three) packs)) 3 ps
             \<and> second_three = map ((!) (filter (\<lambda>pack. pack \<notin> set first_three) packs)) ps
             \<and> (distinct packs \<longrightarrow> distinct first_three \<and> distinct second_three)))
       \<and> (distinct packs \<and> 6 \<le> length packs \<longrightarrow>
           (\<exists>anchor second_three g'.
               DrawThreeTwiceStrategy_draft smp chc g packs = Inr (PyTuple anchor second_three, g')))"
proof (intro conjI impI)
  assume "DrawThreeTwiceStrategy_draft smp chc g packs = Inr (d, g')"
  from draft_three_twice_Inr [OF this] obtain first_three g1 first_pick g2 second_three where
    s1: "smp g packs 3 = Inr (first_three, g1)" and
    c: "chc g1 first_three = Inr (first_pick, g2)" and
    s2: "smp g2 (filter (\<lambda>pack. pack \<notin> set first_three) packs) 3 = Inr (second_three, g')" and
    d: "d = PyTuple first_pick second_three"
    by blast
  let ?rest = "filter (\<lambda>pack. pack \<notin> set first_three) packs"
  from sample_Inr [OF assms(1) s1] obtain ps1 where
    p1: "positions_ok (length packs) 3 ps1" and f: "first_three = map ((!) packs) ps1"
    by blast
  from sample_Inr [OF assms(1) s2] obtain ps2 where
    p2: "positions_ok (length ?rest) 3 ps2" and s: "second_three = map ((!) ?rest) ps2"
    by blast
  have a: "first_pick \<in> set first_three" by (rule choice_Inr [OF assms(2) c])
  have sub: "set second_three \<subseteq> set ?rest"
    unfolding s by (rule positions_ok_nth(2) [OF p2])
  then have disj: "set second_three \<inter> set first_three = {}" by auto
  have dr: "distinct packs \<Longrightarrow> distinct ?rest" by simp
  show "\<exists>first_three g1 anchor second_three ps.
               smp g packs 3 = Inr (first_three, g1)
             \<and> d = PyTuple anchor second_three
             \<and> length first_three = 3 \<and> set first_three \<subseteq> set packs
             \<and> anchor \<in> set first_three
             \<and> length second_three = 3 \<and> set second_three \<subseteq> set packs
             \<and> set second_three \<inter> set first_three = {}
             \<and> anchor \<notin> set second_three
             \<and> positions_ok (length (filter (\<lambda>pack. pack \<notin> set first_three) packs)) 3 ps
             \<and> second_three = map ((!) (filter (\<lambda>pack. pack \<notin> set first_three) packs)) ps
             \<and> (distinct packs \<longrightarrow> distinct first_three \<and> distinct second_three)"
  proof (intro exI conjI impI)
    show "smp g packs 3 = Inr (first_three, g1)" by (rule s1)
    show "d = PyTuple first_pick second_three" by (rule d)
    show "length first_three = 3" unfolding f by (rule positions_ok_nth(1) [OF p1])
    show "set first_three \<subseteq> set packs" unfolding f by (rule positions_ok_nth(2) [OF p1])
    show "first_pick \<in> set first_three" by (rule a)
    show "length second_three = 3" unfolding s by (rule positions_ok_nth(1) [OF p2])
    show "set second_three \<subseteq> set packs" using sub by auto
    show "set second_three \<inter> set first_three = {}" by (rule disj)
    show "first_pick \<notin> set second_three" using a disj by auto
    show "positions_ok (length ?rest) 3 ps2" by (rule p2)
    show "second_three = map ((!) ?rest) ps2" by (rule s)
    show "distinct first_three" if "distinct packs"
      unfolding f by (rule positions_ok_nth(3) [OF p1 that])
    show "distinct second_three" if "distinct packs"
      unfolding s by (rule positions_ok_nth(3) [OF p2 dr [OF that]])
  qed
next
  assume "distinct packs \<and> 6 \<le> length packs"
  then show "\<exists>anchor second_three g'.
               DrawThreeTwiceStrategy_draft smp chc g packs = Inr (PyTuple anchor second_three, g')"
    by (rule draft_three_twice_returns [OF assms])
qed

theorem draw_three_twice_result_witness:
  "sample_contract counter_sample \<and> choice_contract counter_choice
   \<and> distinct six_packs \<and> 6 \<le> length six_packs
   \<and> DrawThreeTwiceStrategy_draft counter_sample counter_choice 1 six_packs
       = Inr (PyTuple pack_UG_frog [pack_W_bird, pack_B_rat, pack_G_squirrel], 4)
   \<and> (\<exists>first_three g1 anchor second_three ps.
           counter_sample 1 six_packs 3 = Inr (first_three, g1)
         \<and> PyTuple pack_UG_frog [pack_W_bird, pack_B_rat, pack_G_squirrel]
             = PyTuple anchor second_three
         \<and> length first_three = 3 \<and> set first_three \<subseteq> set six_packs
         \<and> anchor \<in> set first_three
         \<and> length second_three = 3 \<and> set second_three \<subseteq> set six_packs
         \<and> set second_three \<inter> set first_three = {}
         \<and> anchor \<notin> set second_three
         \<and> positions_ok (length (filter (\<lambda>pack. pack \<notin> set first_three) six_packs)) 3 ps
         \<and> second_three = map ((!) (filter (\<lambda>pack. pack \<notin> set first_three) six_packs)) ps
         \<and> (distinct six_packs \<longrightarrow> distinct first_three \<and> distinct second_three))
   \<and> (\<exists>anchor second_three g'.
         DrawThreeTwiceStrategy_draft counter_sample counter_choice 1 six_packs
           = Inr (PyTuple anchor second_three, g'))"
proof -
  have l: "6 \<le> length six_packs" by (simp add: six_packs_def)
  show ?thesis
    using draw_three_twice_result [OF counter_sample_contract counter_choice_contract, of 1 six_packs
      "PyTuple pack_UG_frog [pack_W_bird, pack_B_rat, pack_G_squirrel]" 4]
      six_draft six_distinct l counter_sample_contract counter_choice_contract
    by (simp only: simp_thms)
qed

text \<open>
  A collection that holds \<open>pack_UG_frog\<close> twice: the three packs drawn after the anchor
  are \<open>pack_UG_frog\<close>, \<open>pack_UG_frog\<close> and \<open>pack_G_squirrel\<close>, which are not three different
  packs.
\<close>

theorem draw_three_twice_repeated_counterexample:
  "sample_contract counter_sample \<and> choice_contract counter_choice
   \<and> DrawThreeTwiceStrategy_draft counter_sample counter_choice 0 repeated_packs
       = Inr (PyTuple pack_WU_bird [pack_UG_frog, pack_UG_frog, pack_G_squirrel], 3)
   \<and> \<not> distinct [pack_UG_frog, pack_UG_frog, pack_G_squirrel]"
  using counter_sample_contract counter_choice_contract repeated_draft by simp

end
